theory Spec2Isabelle
  imports Main
begin

section \<open>Python values, exceptions and truthiness\<close>

text \<open>
  The services exchange decoded JSON and Python dictionaries. A dictionary is kept as
  an association list; \<open>JNull\<close> stands for Python's \<open>None\<close>.
\<close>

datatype json =
    JNull
  | JBool bool
  | JNum int
  | JStr string
  | JArr "json list"
  | JObj "(string \<times> json) list"

type_synonym pydict = "(string \<times> json) list"

datatype py_exn =
    RequestException string
  | AttributeError string
  | OtherException string

text \<open>\<open>d.get(k)\<close> and \<open>d.get(k, default)\<close> on a dictionary.\<close>

definition dict_get :: "pydict \<Rightarrow> string \<Rightarrow> json" where
  "dict_get d k = (case map_of d k of None \<Rightarrow> JNull | Some v \<Rightarrow> v)"

definition dict_get_default :: "pydict \<Rightarrow> string \<Rightarrow> json \<Rightarrow> json" where
  "dict_get_default d k dflt = (case map_of d k of None \<Rightarrow> dflt | Some v \<Rightarrow> v)"

text \<open>
  \<open>v.get(k, default)\<close> on an arbitrary value: only a dictionary has the method, every
  other value raises \<open>AttributeError\<close>.
\<close>

fun py_get :: "json \<Rightarrow> string \<Rightarrow> json \<Rightarrow> py_exn + json" where
  "py_get (JObj d) k dflt = Inr (dict_get_default d k dflt)"
| "py_get v k dflt = Inl (AttributeError ''get'')"

text \<open>Truthiness of an optional string (\<open>if code:\<close>) and of an optional integer key.\<close>

fun truthy_str :: "string option \<Rightarrow> bool" where
  "truthy_str None = False"
| "truthy_str (Some s) = (s \<noteq> [])"

fun truthy_int :: "int option \<Rightarrow> bool" where
  "truthy_int None = False"
| "truthy_int (Some n) = (n \<noteq> 0)"

section \<open>Permission decorators (app/decorators.py)\<close>

text \<open>
  The decorators read \<open>current_user\<close> by attribute probing (\<open>hasattr\<close>), so the
  principal is the record of what those probes return: \<open>is_admin_attr = None\<close> when the
  object has no \<open>is_admin\<close> method and \<open>Some b\<close> when \<open>is_admin()\<close> returns \<open>b\<close>;
  \<open>id_attr = None\<close> when it has no \<open>id\<close>.
\<close>

datatype py_id = IntId nat | StrId string

record principal =
  is_authenticated :: bool
  is_admin_attr :: "bool option"
  id_attr :: "py_id option"
  has_role_attr :: bool

text \<open>
  What a decorated view produces: the value of \<open>login_manager.unauthorized()\<close> (the
  redirect to the login page), \<open>abort(status)\<close>, or the wrapped function's own return
  value. The wrapped function \<open>f\<close> takes its arguments and the application state and
  returns its value with the new state, so that a call of \<open>f\<close> is visible.
\<close>

datatype 'r view_result =
    Login_unauthorized
  | Abort nat
  | Returned 'r

definition call_view :: "('a \<Rightarrow> 's \<Rightarrow> 'r \<times> 's) \<Rightarrow> 'a \<Rightarrow> 's \<Rightarrow> 'r view_result \<times> 's" where
  "call_view f args s = (case f args s of (r, s') \<Rightarrow> (Returned r, s'))"

definition admin_required ::
  "('a \<Rightarrow> 's \<Rightarrow> 'r \<times> 's) \<Rightarrow> principal \<Rightarrow> 'a \<Rightarrow> 's \<Rightarrow> 'r view_result \<times> 's" where
  "admin_required f current_user args s =
     (if \<not> is_authenticated current_user then (Login_unauthorized, s)
      else if (case is_admin_attr current_user of None \<Rightarrow> False | Some b \<Rightarrow> b)
        then call_view f args s
      else if (case id_attr current_user of None \<Rightarrow> False | Some i \<Rightarrow> i = StrId ''admin'')
        then call_view f args s
      else (Abort 403, s))"

definition guest_allowed ::
  "('a \<Rightarrow> 's \<Rightarrow> 'r \<times> 's) \<Rightarrow> principal \<Rightarrow> 'a \<Rightarrow> 's \<Rightarrow> 'r view_result \<times> 's" where
  "guest_allowed f current_user args s =
     (if \<not> is_authenticated current_user then (Login_unauthorized, s)
      else if has_role_attr current_user
              \<or> (case id_attr current_user of None \<Rightarrow> False | Some i \<Rightarrow> i = StrId ''admin'')
        then call_view f args s
      else (Abort 403, s))"

section \<open>Stored rows and the database session\<close>

text \<open>
  The model classes (\<open>app.models\<close>) and the session (\<open>app.extensions.db\<close>) are
  imported by the services. The rows carry the columns the services read and write.
\<close>

text \<open>Modelled from the spec: the \<open>MediaServer\<close> row (identifier, display name,
  server-type tag, base URL, API key, verified flag), constructed with these columns in
  the tests.\<close>

record media_server =
  ms_id :: nat
  ms_name :: string
  ms_server_type :: string
  ms_url :: string
  ms_api_key :: string
  ms_verified :: bool

text \<open>Modelled from the spec: the \<open>Invitation\<close> row, of which identity linking reads
  \<open>code\<close> and \<open>unlimited\<close>.\<close>

record invitation =
  inv_code :: string
  unlimited :: bool

text \<open>Modelled from the spec: the \<open>User\<close> row (username, optional email, invitation
  code used, nullable identity group, server linkage, access token). The same record is
  the \<open>user_kwargs\<close> dictionary from which \<open>User(**user_kwargs)\<close> builds the row: an
  absent key and a \<open>None\<close> value are both \<open>None\<close>.\<close>

record user =
  user_username :: "string option"
  user_email :: "string option"
  user_code :: "string option"
  identity_id :: "int option"
  user_token :: "string option"
  user_server_id :: "nat option"

text \<open>Modelled from the spec: the \<open>AdminAccount\<close> row (username, password hash, role,
  optional remote-server linkage). \<open>jellyfin_user_id\<close> holds whatever
  \<open>user_info.get("id")\<close> gave, \<open>JNull\<close> when absent.\<close>

record admin_account =
  acc_username :: string
  password_hash :: string
  role :: string
  jellyfin_server :: "string option"
  jellyfin_user_id :: json

text \<open>
  The database as one session sees it: the tables, and the objects handed to
  \<open>db.session.add\<close> that are not committed yet. \<open>Settings\<close> is the legacy key-value
  table (a key without a row, or with a NULL value, reads as \<open>None\<close>).
\<close>

record db =
  media_servers :: "media_server list"
  settings :: "string \<Rightarrow> string option"
  invitations :: "invitation list"
  users :: "user list"
  admin_accounts :: "admin_account list"
  new_users :: "user list"
  new_accounts :: "admin_account list"

text \<open>\<open>db.session.commit()\<close> writes every pending object to its table.\<close>

definition commit :: "db \<Rightarrow> db" where
  "commit d = d\<lparr>users := users d @ new_users d, new_users := [],
                admin_accounts := admin_accounts d @ new_accounts d, new_accounts := []\<rparr>"

text \<open>Modelled from the spec: an \<open>AdminAccount\<close> as \<open>current_user\<close>. It is
  authenticated, \<open>is_admin()\<close> is \<open>role == "admin"\<close> (the tests assert it false for a
  guest), its \<open>id\<close> is the integer primary key \<open>pk\<close>, and it has a \<open>role\<close> attribute.\<close>

definition current_user_of_account :: "nat \<Rightarrow> admin_account \<Rightarrow> principal" where
  "current_user_of_account pk a =
     \<lparr>is_authenticated = True, is_admin_attr = Some (role a = ''admin''),
      id_attr = Some (IntId pk), has_role_attr = True\<rparr>"

text \<open>The anonymous visitor of Flask-Login: not authenticated, none of the attributes.\<close>

definition anonymous_user :: principal where
  "anonymous_user =
     \<lparr>is_authenticated = False, is_admin_attr = None, id_attr = None, has_role_attr = False\<rparr>"

section \<open>Identity linking (MediaClient._create_user_with_identity_linking)\<close>

text \<open>
  \<open>EMAIL_RE\<close> (\<open>app.services.media.service\<close>) and \<open>cleanup_expired_user_by_email\<close>
  (\<open>app.services.expiry\<close>) are imported inside the method; they are the parameters
  \<open>email_re\<close> (whether \<open>EMAIL_RE.fullmatch\<close> matches) and \<open>cleanup\<close>. The method
  returns the new \<open>User\<close> and leaves it in the session, uncommitted.
\<close>

text \<open>
  \<open>User.query\<close> as the session sees it. A query first flushes the session (autoflush),
  so the users handed to \<open>db.session.add\<close> and not committed yet are found as well,
  after the stored rows; flushing does not commit them.
\<close>

definition user_query :: "db \<Rightarrow> user list" where
  "user_query d = users d @ new_users d"

text \<open>The first block of the method: the lookup that may put an \<open>identity_id\<close> into
  \<open>user_kwargs\<close>.\<close>

definition link_identity :: "(string \<Rightarrow> bool) \<Rightarrow> db \<Rightarrow> user \<Rightarrow> user" where
  "link_identity email_re d user_kwargs =
     (if truthy_str (user_code user_kwargs) then
        (case find (\<lambda>i. Some (inv_code i) = user_code user_kwargs) (invitations d) of
           None \<Rightarrow> user_kwargs
         | Some invitation \<Rightarrow>
             if \<not> unlimited invitation then
               (case find (\<lambda>u. user_code u = user_code user_kwargs) (user_query d) of
                  None \<Rightarrow> user_kwargs
                | Some existing_user \<Rightarrow>
                    if truthy_int (identity_id existing_user)
                    then user_kwargs\<lparr>identity_id := identity_id existing_user\<rparr>
                    else user_kwargs)
             else if truthy_str (user_email user_kwargs) \<and> email_re (the (user_email user_kwargs)) then
               (case find (\<lambda>u. user_code u = user_code user_kwargs \<and> user_email u = user_email user_kwargs)
                       (user_query d) of
                  None \<Rightarrow> user_kwargs
                | Some existing_user \<Rightarrow>
                    if truthy_int (identity_id existing_user)
                    then user_kwargs\<lparr>identity_id := identity_id existing_user\<rparr>
                    else user_kwargs)
             else user_kwargs)
      else user_kwargs)"

definition create_user_with_identity_linking ::
  "(string \<Rightarrow> db \<Rightarrow> db) \<Rightarrow> (string \<Rightarrow> bool) \<Rightarrow> db \<Rightarrow> user \<Rightarrow> user \<times> db" where
  "create_user_with_identity_linking cleanup email_re d user_kwargs =
     (let new_user = link_identity email_re d user_kwargs;
          d1 = (if truthy_str (user_email user_kwargs)
                then cleanup (the (user_email user_kwargs)) d else d)
      in (new_user, d1\<lparr>new_users := new_users d1 @ [new_user]\<rparr>))"

section \<open>Jellyfin authentication (app/services/jellyfin_auth.py)\<close>

text \<open>
  The network is the parameter \<open>http\<close>: what \<open>requests.post\<close> does with a request,
  either raising or returning a response. \<open>json_result\<close> is what \<open>response.json()\<close>
  gives, which may raise as well. The model returns the requests made and the log lines
  written, in order, next to the function's result.
\<close>

record http_request =
  req_url :: string
  req_json :: pydict
  req_headers :: "(string \<times> string) list"
  req_timeout :: nat
  req_verify :: bool

record http_response =
  status_code :: nat
  json_result :: "py_exn + json"
  resp_text :: string

datatype log_message =
    No_servers_configured
  | Failed_to_authenticate_against string py_exn
  | Successfully_authenticated string
  | Invalid_credentials string
  | Authentication_failed_with_status nat string
  | Network_error py_exn
  | Unexpected_error py_exn
  | Created_guest_account string string

datatype log_level = DEBUG | INFO | WARNING | ERROR

datatype event =
    Posted http_request
  | Logged log_level log_message

definition endswith_slash :: "string \<Rightarrow> bool" where
  "endswith_slash s = (s \<noteq> [] \<and> last s = CHR ''/'')"

definition auth_headers :: "(string \<times> string) list" where
  "auth_headers =
     [(''Content-Type'', ''application/json''),
      (''Accept'', ''application/json''),
      (''X-Emby-Authorization'',
       ''MediaBrowser Client='' @ [CHR 0x22] @ ''Wizarr'' @ [CHR 0x22] @
       '', Device='' @ [CHR 0x22] @ ''Wizarr'' @ [CHR 0x22] @
       '', DeviceId='' @ [CHR 0x22] @ ''wizarr-auth'' @ [CHR 0x22] @
       '', Version='' @ [CHR 0x22] @ ''1.0.0'' @ [CHR 0x22])]"

text \<open>The \<open>user_info\<close> dictionary built from a 200 response; each \<open>.get\<close> may raise.\<close>

definition sum_bind :: "'e + 'a \<Rightarrow> ('a \<Rightarrow> 'e + 'b) \<Rightarrow> 'e + 'b" where
  "sum_bind m f = (case m of Inl e \<Rightarrow> Inl e | Inr x \<Rightarrow> f x)"

definition extract_user_info :: "json \<Rightarrow> py_exn + pydict" where
  "extract_user_info user_data =
     sum_bind (sum_bind (py_get user_data ''User'' (JObj [])) (\<lambda>u. py_get u ''Id'' JNull)) (\<lambda>v_id.
     sum_bind (sum_bind (py_get user_data ''User'' (JObj [])) (\<lambda>u. py_get u ''Name'' JNull)) (\<lambda>v_name.
     sum_bind (sum_bind (py_get user_data ''User'' (JObj []))
                 (\<lambda>u. py_get u ''HasPassword'' (JBool True))) (\<lambda>v_has.
     sum_bind (sum_bind (py_get user_data ''User'' (JObj []))
                 (\<lambda>u. py_get u ''HasConfiguredPassword'' (JBool True))) (\<lambda>v_conf.
     sum_bind (py_get user_data ''ServerId'' JNull) (\<lambda>v_server.
     sum_bind (py_get user_data ''AccessToken'' JNull) (\<lambda>v_token.
     sum_bind (sum_bind (py_get user_data ''User'' (JObj []))
                 (\<lambda>u. py_get u ''Policy'' (JObj []))) (\<lambda>v_policy.
       Inr [(''id'', v_id), (''name'', v_name), (''has_password'', v_has),
            (''has_configured_password'', v_conf), (''server_id'', v_server),
            (''access_token'', v_token), (''policy'', v_policy)])))))))"

text \<open>The two \<open>except\<close> clauses of \<open>_authenticate_against_server\<close>: both log and
  re-raise.\<close>

definition log_exception :: "py_exn \<Rightarrow> event" where
  "log_exception e =
     (case e of RequestException m \<Rightarrow> Logged ERROR (Network_error e)
              | _ \<Rightarrow> Logged ERROR (Unexpected_error e))"

definition auth_url :: "string \<Rightarrow> string" where
  "auth_url server_url0 =
     (let server_url = (if \<not> endswith_slash server_url0 then server_url0 @ ''/'' else server_url0)
      in server_url @ ''Users/AuthenticateByName'')"

text \<open>The call \<open>requests.post(auth_url, json=payload, headers=headers, timeout=10,
  verify=True)\<close> as a value.\<close>

definition auth_request :: "string \<Rightarrow> string \<Rightarrow> string \<Rightarrow> http_request" where
  "auth_request server_url0 username password =
     \<lparr>req_url = auth_url server_url0,
      req_json = [(''Username'', JStr username), (''Pw'', JStr password)],
      req_headers = auth_headers, req_timeout = 10, req_verify = True\<rparr>"

definition authenticate_against_server ::
  "(http_request \<Rightarrow> py_exn + http_response) \<Rightarrow> string \<Rightarrow> string \<Rightarrow> string
     \<Rightarrow> event list \<times> (py_exn + bool \<times> pydict option)" where
  "authenticate_against_server http server_url0 username password =
     (let request = auth_request server_url0 username password
      in case http request of
           Inl e \<Rightarrow> ([Posted request, log_exception e], Inl e)
         | Inr response \<Rightarrow>
             if status_code response = 200 then
               (case sum_bind (json_result response) extract_user_info of
                  Inl e \<Rightarrow> ([Posted request, log_exception e], Inl e)
                | Inr user_info \<Rightarrow>
                    ([Posted request, Logged INFO (Successfully_authenticated username)],
                     Inr (True, Some user_info)))
             else if status_code response = 401 then
               ([Posted request, Logged DEBUG (Invalid_credentials username)],
                Inr (False, None))
             else
               ([Posted request,
                 Logged WARNING
                   (Authentication_failed_with_status (status_code response) (resp_text response))],
                Inr (False, None)))"

text \<open>The URLs requested in a run, in order.\<close>

fun posted_urls :: "event list \<Rightarrow> string list" where
  "posted_urls [] = []"
| "posted_urls (Posted r # evs) = req_url r # posted_urls evs"
| "posted_urls (Logged l m # evs) = posted_urls evs"

text \<open>The \<open>for\<close> loop of \<open>authenticate_jellyfin_user\<close> over the remaining servers.\<close>

fun authenticate_loop ::
  "(http_request \<Rightarrow> py_exn + http_response) \<Rightarrow> string \<Rightarrow> string \<Rightarrow> media_server list
     \<Rightarrow> event list \<times> bool \<times> string option \<times> pydict option" where
  "authenticate_loop http username password [] = ([], False, None, None)"
| "authenticate_loop http username password (server # rest) =
     (case authenticate_against_server http (ms_url server) username password of
        (evs, Inr (True, user_info)) \<Rightarrow> (evs, True, Some (ms_name server), user_info)
      | (evs, Inr (False, user_info)) \<Rightarrow>
          (case authenticate_loop http username password rest of
             (evs', res) \<Rightarrow> (evs @ evs', res))
      | (evs, Inl e) \<Rightarrow>
          (case authenticate_loop http username password rest of
             (evs', res) \<Rightarrow>
               (evs @ [Logged WARNING (Failed_to_authenticate_against (ms_name server) e)] @ evs',
                res)))"

definition authenticate_jellyfin_user ::
  "(http_request \<Rightarrow> py_exn + http_response) \<Rightarrow> db \<Rightarrow> string \<Rightarrow> string
     \<Rightarrow> event list \<times> bool \<times> string option \<times> pydict option" where
  "authenticate_jellyfin_user http d username password =
     (let jellyfin_servers = filter (\<lambda>s. ms_server_type s = ''jellyfin'') (media_servers d)
      in if jellyfin_servers = [] then
           ([Logged WARNING No_servers_configured], False, None, None)
         else authenticate_loop http username password jellyfin_servers)"

text \<open>
  \<open>create_guest_account_from_jellyfin\<close>: \<open>token\<close> is the value drawn by
  \<open>secrets.token_urlsafe(32)\<close> and \<open>hash_password\<close> what \<open>set_password\<close> stores for it.
  The account is added to the session and the session committed.
\<close>

definition create_guest_account_from_jellyfin ::
  "(string \<Rightarrow> string) \<Rightarrow> string \<Rightarrow> db \<Rightarrow> string \<Rightarrow> string \<Rightarrow> pydict
     \<Rightarrow> event list \<times> admin_account \<times> db" where
  "create_guest_account_from_jellyfin hash_password token d username jellyfin_server_name user_info =
     (let account = \<lparr>acc_username = username, password_hash = hash_password token,
                     role = ''guest'', jellyfin_server = Some jellyfin_server_name,
                     jellyfin_user_id = dict_get user_info ''id''\<rparr>;
          d1 = d\<lparr>new_accounts := new_accounts d @ [account]\<rparr>
      in ([Logged INFO (Created_guest_account username jellyfin_server_name)], account, commit d1))"

text \<open>Modelled from the spec: the provisioning step of the login route, which is not
  among the sources (section 4.6: if no local Account exists with the given username,
  create one; if one exists, it is reused as-is). The creation itself is the function
  above.\<close>

definition provision_guest_account ::
  "(string \<Rightarrow> string) \<Rightarrow> string \<Rightarrow> db \<Rightarrow> string \<Rightarrow> string \<Rightarrow> pydict
     \<Rightarrow> event list \<times> admin_account \<times> db" where
  "provision_guest_account hash_password token d username server_name user_info =
     (case find (\<lambda>a. acc_username a = username) (admin_accounts d) of
        None \<Rightarrow>
          create_guest_account_from_jellyfin hash_password token d username server_name user_info
      | Some account \<Rightarrow> ([], account, d))"

text \<open>Modelled from the spec: delegated login, the credential scan followed on success
  by provisioning. The submitted password goes to the remote servers only.\<close>

definition delegated_login ::
  "(http_request \<Rightarrow> py_exn + http_response) \<Rightarrow> (string \<Rightarrow> string) \<Rightarrow> string \<Rightarrow> db
     \<Rightarrow> string \<Rightarrow> string \<Rightarrow> event list \<times> admin_account option \<times> db" where
  "delegated_login http hash_password token d username password =
     (case authenticate_jellyfin_user http d username password of
        (evs, True, Some server_name, Some user_info) \<Rightarrow>
          (case provision_guest_account hash_password token d username server_name user_info of
             (evs', account, d') \<Rightarrow> (evs @ evs', Some account, d'))
      | (evs, res) \<Rightarrow> (evs, None, d))"

section \<open>Media client base class (app/services/media/client_base.py)\<close>

text \<open>
  The attributes of a \<open>MediaClient\<close> instance. \<open>server_row\<close> and \<open>server_id\<close> are
  \<open>None\<close> when the attribute was never assigned (reading it raises
  \<open>AttributeError\<close>); \<open>url\<close> and \<open>token\<close> are always assigned, possibly to Python's
  \<open>None\<close>.
\<close>

record media_client =
  server_row :: "media_server option"
  server_id :: "nat option"
  url :: "string option"
  token :: "string option"

definition attach_server_row :: "media_server \<Rightarrow> media_client" where
  "attach_server_row row =
     \<lparr>server_row = Some row, server_id = Some (ms_id row),
      url = Some (ms_url row), token = Some (ms_api_key row)\<rparr>"

text \<open>
  \<open>MediaClient.__init__\<close>. \<open>class_server_type\<close> is
  \<open>getattr(self.__class__, "_server_type", None)\<close>, the tag the registry decorator put
  on the class.
\<close>

definition MediaClient_init ::
  "db \<Rightarrow> string option \<Rightarrow> media_server option \<Rightarrow> string \<Rightarrow> string \<Rightarrow> media_client" where
  "MediaClient_init d class_server_type media_server url_key token_key =
     (case media_server of
        Some row \<Rightarrow> attach_server_row row
      | None \<Rightarrow>
          (case (if truthy_str class_server_type
                 then find (\<lambda>r. Some (ms_server_type r) = class_server_type) (media_servers d)
                 else None) of
             Some row \<Rightarrow> attach_server_row row
           | None \<Rightarrow>
               \<lparr>server_row = None, server_id = None,
                url = settings d url_key, token = settings d token_key\<rparr>))"

text \<open>
  \<open>generate_image_proxy_url\<close>; \<open>generate_token\<close> is
  \<open>ImageProxyService.generate_token\<close> and \<open>quote_plus\<close> the library function.
\<close>

definition generate_image_proxy_url ::
  "(string \<Rightarrow> nat \<Rightarrow> string) \<Rightarrow> (string \<Rightarrow> string) \<Rightarrow> media_client \<Rightarrow> string
     \<Rightarrow> py_exn + string" where
  "generate_image_proxy_url generate_token quote_plus self image_url =
     (case server_id self of
        None \<Rightarrow> Inl (AttributeError ''server_id'')
      | Some sid \<Rightarrow> Inr (''/image-proxy?token='' @ quote_plus (generate_token image_url sid)))"

subsection \<open>Statistics\<close>

text \<open>
  What a concrete client class supplies: \<open>statistics\<close> is abstract, so every class
  implements it; \<open>get_user_count\<close> and \<open>get_server_info\<close> have a base implementation
  that a class may override (\<open>None\<close>: the class inherits the base one). A method takes
  the storage \<open>'s\<close> and returns its value, or the exception it raised, with the storage
  it leaves.
\<close>

record 's client_class =
  statistics :: "'s \<Rightarrow> (py_exn + json) \<times> 's"
  get_user_count_override :: "('s \<Rightarrow> (py_exn + json) \<times> 's) option"
  get_server_info_override :: "('s \<Rightarrow> (py_exn + json) \<times> 's) option"

definition get_user_count :: "'s client_class \<Rightarrow> 's \<Rightarrow> json \<times> 's" where
  "get_user_count self s =
     (case statistics self s of
        (Inl e, s') \<Rightarrow> (JNum 0, s')
      | (Inr stats, s') \<Rightarrow>
          (case sum_bind (py_get stats ''user_stats'' (JObj []))
                  (\<lambda>u. py_get u ''total_users'' (JNum 0)) of
             Inl e \<Rightarrow> (JNum 0, s')
           | Inr n \<Rightarrow> (n, s')))"

definition unknown_server_info :: json where
  "unknown_server_info =
     JObj [(''version'', JStr ''Unknown''), (''transcoding_sessions'', JNum 0),
           (''active_sessions'', JNum 0)]"

definition get_server_info :: "'s client_class \<Rightarrow> 's \<Rightarrow> json \<times> 's" where
  "get_server_info self s =
     (case statistics self s of
        (Inl e, s') \<Rightarrow> (unknown_server_info, s')
      | (Inr stats, s') \<Rightarrow>
          (case
             sum_bind (sum_bind (py_get stats ''server_stats'' (JObj []))
                         (\<lambda>v. py_get v ''version'' (JStr ''Unknown''))) (\<lambda>version.
             sum_bind (sum_bind (py_get stats ''server_stats'' (JObj []))
                         (\<lambda>v. py_get v ''transcoding_sessions'' (JNum 0))) (\<lambda>transcoding.
             sum_bind (sum_bind (py_get stats ''user_stats'' (JObj []))
                         (\<lambda>v. py_get v ''active_sessions'' (JNum 0))) (\<lambda>active.
               Inr (JObj [(''version'', version), (''transcoding_sessions'', transcoding),
                          (''active_sessions'', active)]))))
           of Inl e \<Rightarrow> (unknown_server_info, s')
            | Inr info \<Rightarrow> (info, s')))"

text \<open>\<open>self.get_user_count()\<close> and \<open>self.get_server_info()\<close> as method calls: the
  override of the class when it has one, the base implementation otherwise.\<close>

definition call_get_user_count :: "'s client_class \<Rightarrow> 's \<Rightarrow> (py_exn + json) \<times> 's" where
  "call_get_user_count self s =
     (case get_user_count_override self of
        None \<Rightarrow> (case get_user_count self s of (n, s') \<Rightarrow> (Inr n, s'))
      | Some m \<Rightarrow> m s)"

definition call_get_server_info :: "'s client_class \<Rightarrow> 's \<Rightarrow> (py_exn + json) \<times> 's" where
  "call_get_server_info self s =
     (case get_server_info_override self of
        None \<Rightarrow> (case get_server_info self s of (i, s') \<Rightarrow> (Inr i, s'))
      | Some m \<Rightarrow> m s)"

definition get_readonly_statistics :: "'s client_class \<Rightarrow> 's \<Rightarrow> (py_exn + json) \<times> 's" where
  "get_readonly_statistics self s =
     (case call_get_user_count self s of
        (Inl e, s1) \<Rightarrow> (Inl e, s1)
      | (Inr total_users, s1) \<Rightarrow>
          (case call_get_server_info self s1 of
             (Inl e, s2) \<Rightarrow> (Inl e, s2)
           | (Inr server_stats, s2) \<Rightarrow>
               (Inr (JObj [(''user_stats'',
                            JObj [(''total_users'', total_users), (''active_sessions'', JNum 0)]),
                           (''server_stats'', server_stats),
                           (''library_stats'', JObj []),
                           (''content_stats'', JObj [])]),
                s2)))"

text \<open>The committed tables of a database, without the session's pending objects.\<close>

definition persistent_storage ::
  "db \<Rightarrow> media_server list \<times> (string \<Rightarrow> string option) \<times> invitation list \<times> user list
         \<times> admin_account list" where
  "persistent_storage d =
     (media_servers d, settings d, invitations d, users d, admin_accounts d)"

section \<open>Concrete scenarios\<close>

text \<open>The data of the scenarios the theorems below are run on.\<close>

definition empty_db :: db where
  "empty_db = \<lparr>media_servers = [], settings = (\<lambda>k. None), invitations = [], users = [],
                admin_accounts = [], new_users = [], new_accounts = []\<rparr>"

definition no_cleanup :: "string \<Rightarrow> db \<Rightarrow> db" where
  "no_cleanup e d = d"

definition contains_at :: "string \<Rightarrow> bool" where
  "contains_at e = (CHR ''@'' \<in> set e)"

definition alice_row :: user where
  "alice_row = \<lparr>user_username = Some ''alice'', user_email = Some ''a@x.com'',
                 user_code = Some ''ABC123'', identity_id = Some 5,
                 user_token = Some ''t1'', user_server_id = Some 1\<rparr>"

definition carol_row :: user where
  "carol_row = \<lparr>user_username = Some ''carol'', user_email = Some ''a@x.com'',
                 user_code = Some ''WELCOME'', identity_id = Some 3,
                 user_token = Some ''t2'', user_server_id = Some 1\<rparr>"

definition invite_db :: db where
  "invite_db = empty_db
     \<lparr>invitations := [\<lparr>inv_code = ''ABC123'', unlimited = False\<rparr>,
                       \<lparr>inv_code = ''WELCOME'', unlimited = True\<rparr>],
      users := [alice_row, carol_row]\<rparr>"

definition candidate :: "string \<Rightarrow> string \<Rightarrow> user" where
  "candidate c e = \<lparr>user_username = Some ''bob'', user_email = Some e, user_code = Some c,
                     identity_id = None, user_token = Some ''t3'', user_server_id = Some 2\<rparr>"

text \<open>A database with the two invitations and no user yet, and a first redeemer whose
  record carries an identity group.\<close>

definition open_db :: db where
  "open_db = empty_db
     \<lparr>invitations := [\<lparr>inv_code = ''ABC123'', unlimited = False\<rparr>,
                       \<lparr>inv_code = ''WELCOME'', unlimited = True\<rparr>]\<rparr>"

definition first_redeemer :: "string \<Rightarrow> string \<Rightarrow> int \<Rightarrow> user" where
  "first_redeemer c e g = (candidate c e)\<lparr>identity_id := Some g\<rparr>"

definition guest_bob :: admin_account where
  "guest_bob = \<lparr>acc_username = ''guest_bob'', password_hash = ''h'', role = ''guest'',
                 jellyfin_server = None, jellyfin_user_id = JNull\<rparr>"

definition counting_view :: "string \<Rightarrow> nat \<Rightarrow> string \<times> nat" where
  "counting_view page n = (page, Suc n)"

definition jellyfin_row :: "nat \<Rightarrow> string \<Rightarrow> string \<Rightarrow> media_server" where
  "jellyfin_row i n u = \<lparr>ms_id = i, ms_name = n, ms_server_type = ''jellyfin'', ms_url = u,
                          ms_api_key = ''key'', ms_verified = True\<rparr>"

definition three_server_db :: db where
  "three_server_db = empty_db
     \<lparr>media_servers := [jellyfin_row 1 ''One'' ''http://one'', jellyfin_row 2 ''Two'' ''http://two/'',
                         jellyfin_row 3 ''Three'' ''http://three'']\<rparr>"

definition dave_data :: json where
  "dave_data = JObj [(''User'', JObj [(''Id'', JStr ''u-7''), (''Name'', JStr ''dave'')]),
                     (''ServerId'', JStr ''srv-3''), (''AccessToken'', JStr ''tok'')]"

definition dave_info :: pydict where
  "dave_info = [(''id'', JStr ''u-7''), (''name'', JStr ''dave''), (''has_password'', JBool True),
                (''has_configured_password'', JBool True), (''server_id'', JStr ''srv-3''),
                (''access_token'', JStr ''tok''), (''policy'', JObj [])]"

text \<open>Two servers are unreachable, the third accepts.\<close>

definition third_accepts :: "http_request \<Rightarrow> py_exn + http_response" where
  "third_accepts r =
     (if req_url r = ''http://three/Users/AuthenticateByName''
      then Inr \<lparr>status_code = 200, json_result = Inr dave_data, resp_text = []\<rparr>
      else Inl (RequestException ''timed out''))"

text \<open>Every server answers 401.\<close>

definition all_reject :: "http_request \<Rightarrow> py_exn + http_response" where
  "all_reject r = Inr \<lparr>status_code = 401, json_result = Inl (OtherException ''no body''),
                        resp_text = []\<rparr>"

text \<open>A server answers 200 with an empty JSON object.\<close>

definition bare_accept :: "http_request \<Rightarrow> py_exn + http_response" where
  "bare_accept r = Inr \<lparr>status_code = 200, json_result = Inr (JObj []), resp_text = []\<rparr>"

definition bare_info :: pydict where
  "bare_info = [(''id'', JNull), (''name'', JNull), (''has_password'', JBool True),
                (''has_configured_password'', JBool True), (''server_id'', JNull),
                (''access_token'', JNull), (''policy'', JObj [])]"

definition toy_hash :: "string \<Rightarrow> string" where
  "toy_hash p = ''hash:'' @ p"

definition dave_account :: admin_account where
  "dave_account = \<lparr>acc_username = ''dave'', password_hash = toy_hash ''r4nd0m'', role = ''guest'',
                    jellyfin_server = Some ''Three'', jellyfin_user_id = JStr ''u-7''\<rparr>"

definition dave_db :: db where
  "dave_db = three_server_db\<lparr>admin_accounts := [dave_account]\<rparr>"

text \<open>A client class whose \<open>statistics\<close> writes (the storage is a write counter), once
  inheriting the base methods and once overriding both without writing.\<close>

definition syncing_client :: "nat client_class" where
  "syncing_client =
     \<lparr>statistics = (\<lambda>s. (Inr (JObj [(''user_stats'', JObj [(''total_users'', JNum 4)])]), Suc s)),
      get_user_count_override = None, get_server_info_override = None\<rparr>"

definition fixed_count :: "nat \<Rightarrow> (py_exn + json) \<times> nat" where
  "fixed_count s = (Inr (JNum 4), s)"

definition fixed_info :: "nat \<Rightarrow> (py_exn + json) \<times> nat" where
  "fixed_info s = (Inr unknown_server_info, s)"

definition overriding_client :: "nat client_class" where
  "overriding_client =
     \<lparr>statistics = (\<lambda>s. (Inr (JObj [(''user_stats'', JObj [(''total_users'', JNum 4)])]), Suc s)),
      get_user_count_override = Some fixed_count,
      get_server_info_override = Some fixed_info\<rparr>"

definition plain_token :: "string \<Rightarrow> nat \<Rightarrow> string" where
  "plain_token image_url sid = image_url"

definition no_quote :: "string \<Rightarrow> string" where
  "no_quote t = t"

definition legacy_db :: db where
  "legacy_db = empty_db
     \<lparr>media_servers := [jellyfin_row 1 ''One'' ''http://one''],
      settings := (\<lambda>k. if k = ''server_url'' then Some ''http://legacy''
                        else if k = ''api_key'' then Some ''legacy-key'' else None)\<rparr>"

section \<open>Permission decorators: guests and anonymous visitors\<close>

text \<open>
  C5. A guest account calling a view under \<open>admin_required\<close> gets \<open>abort(403)\<close> and the
  view is not run (the state is the one before the call, whatever the view is); under
  \<open>guest_allowed\<close> the view runs and its return value and state come back unchanged. An
  unauthenticated visitor gets \<open>login_manager.unauthorized()\<close> from both decorators.
\<close>

theorem guards_on_guest_and_anonymous:
  "(role a = ''guest'' \<longrightarrow>
      admin_required f (current_user_of_account pk a) args s = (Abort 403, s)
      \<and> guest_allowed g (current_user_of_account pk a) args s
          = (Returned (fst (g args s)), snd (g args s)))
   \<and> (\<not> is_authenticated cu \<longrightarrow>
      admin_required f cu args s = (Login_unauthorized, s)
      \<and> guest_allowed g cu args s = (Login_unauthorized, s))"
  by (simp add: admin_required_def guest_allowed_def current_user_of_account_def call_view_def
      split: prod.splits)

theorem guards_on_guest_and_anonymous_witness:
  "role guest_bob = ''guest''
   \<and> admin_required counting_view (current_user_of_account 7 guest_bob) ''page'' 0
       = (Abort 403, 0)
   \<and> guest_allowed counting_view (current_user_of_account 7 guest_bob) ''page'' 0
       = (Returned ''page'', 1)
   \<and> \<not> is_authenticated anonymous_user
   \<and> admin_required counting_view anonymous_user ''page'' 0 = (Login_unauthorized, 0)
   \<and> guest_allowed counting_view anonymous_user ''page'' 0 = (Login_unauthorized, 0)"
  using guards_on_guest_and_anonymous
    [of guest_bob counting_view 7 "''page''" 0 counting_view anonymous_user]
  by (simp add: guest_bob_def anonymous_user_def counting_view_def)

section \<open>Identity linking by invitation type\<close>

lemma find_SomeD: "find P xs = Some x \<Longrightarrow> x \<in> set xs \<and> P x"
  by (induction xs) (auto split: if_splits)

lemma find_first_match:
  "\<forall>x \<in> set pre. \<not> P x \<Longrightarrow> P y \<Longrightarrow> find P (pre @ y # post) = Some y"
  by (induction pre) auto

lemma find_no_match: "\<forall>x \<in> set xs. \<not> P x \<Longrightarrow> find P xs = None"
  by (induction xs) auto

lemma link_identity_keeps_code: "user_code (link_identity email_re d kw) = user_code kw"
  by (simp add: link_identity_def split: option.splits)

lemma link_identity_keeps_email: "user_email (link_identity email_re d kw) = user_email kw"
  by (simp add: link_identity_def split: option.splits)

lemma created_code:
  "user_code (fst (create_user_with_identity_linking cleanup email_re d kw)) = user_code kw"
  by (simp add: create_user_with_identity_linking_def Let_def link_identity_keeps_code)

lemma created_email:
  "user_email (fst (create_user_with_identity_linking cleanup email_re d kw)) = user_email kw"
  by (simp add: create_user_with_identity_linking_def Let_def link_identity_keeps_email)

lemma query_after_create:
  "user_query (snd (create_user_with_identity_linking cleanup email_re d kw))
     = (users (snd (create_user_with_identity_linking cleanup email_re d kw))
          @ butlast (new_users (snd (create_user_with_identity_linking cleanup email_re d kw))))
        @ fst (create_user_with_identity_linking cleanup email_re d kw) # []"
  by (simp add: create_user_with_identity_linking_def Let_def user_query_def)

lemma limited_lookup:
  assumes "user_code user_kwargs = Some c" and "c \<noteq> []"
    and "find (\<lambda>i. inv_code i = c) (invitations d) = Some invitation"
    and "\<not> unlimited invitation"
    and "find (\<lambda>u. user_code u = Some c) (user_query d) = Some existing_user"
    and "identity_id existing_user = Some g" and "g \<noteq> 0"
  shows "identity_id (fst (create_user_with_identity_linking cleanup email_re d user_kwargs))
           = Some g"
  using assms
  by (simp add: create_user_with_identity_linking_def link_identity_def Let_def)

lemma first_record_is_seen:
  assumes "\<forall>u \<in> set (users (snd (create_user_with_identity_linking cleanup email_re d kw))
                    @ butlast (new_users (snd (create_user_with_identity_linking cleanup email_re d kw)))).
            \<not> P u"
    and "P (fst (create_user_with_identity_linking cleanup email_re d kw))"
  shows "find P (user_query (snd (create_user_with_identity_linking cleanup email_re d kw)))
           = Some (fst (create_user_with_identity_linking cleanup email_re d kw))"
  unfolding query_after_create by (rule find_first_match [OF assms])

lemma limited_chain:
  assumes c1: "user_code first_kwargs = Some c" and c2: "user_code user_kwargs = Some c"
    and ne: "c \<noteq> []"
    and inv: "find (\<lambda>i. inv_code i = c)
            (invitations (snd (create_user_with_identity_linking cleanup1 email_re1 d first_kwargs)))
          = Some invitation"
    and lim: "\<not> unlimited invitation"
    and none: "\<forall>u \<in> set (users (snd (create_user_with_identity_linking cleanup1 email_re1 d first_kwargs))
                    @ butlast (new_users
                        (snd (create_user_with_identity_linking cleanup1 email_re1 d first_kwargs)))).
            user_code u \<noteq> Some c"
    and g: "identity_id (fst (create_user_with_identity_linking cleanup1 email_re1 d first_kwargs))
          = Some g"
    and g0: "g \<noteq> 0"
  shows "identity_id (fst (create_user_with_identity_linking cleanup email_re
                        (snd (create_user_with_identity_linking cleanup1 email_re1 d first_kwargs))
                        user_kwargs)) = Some g"
proof -
  have code: "user_code (fst (create_user_with_identity_linking cleanup1 email_re1 d first_kwargs))
                = Some c"
    unfolding created_code by (rule c1)
  have none': "\<forall>u \<in> set (users (snd (create_user_with_identity_linking cleanup1 email_re1 d first_kwargs))
                    @ butlast (new_users
                        (snd (create_user_with_identity_linking cleanup1 email_re1 d first_kwargs)))).
            \<not> user_code u = Some c"
    using none .
  show ?thesis
    by (rule limited_lookup [OF c2 ne inv lim first_record_is_seen [OF none' code] g g0])
qed

text \<open>
  C1. The candidate carries a code whose invitation is limited. The lookup sees the stored
  users and, after them, the users pending in the session. When the first user it sees
  with that code has an identity group (a key Python takes as true, so not 0), the new
  user gets that group, whatever the two emails, the cleanup and the email pattern are.
  In particular, when a first redemption has left its record in the session and no
  earlier user has the code, a second redemption of the code in the same session, before
  any commit, gets the group of the first record.
\<close>

theorem limited_invitation_adopts_group:
  "(user_code user_kwargs = Some c \<and> c \<noteq> []
      \<and> find (\<lambda>i. inv_code i = c) (invitations d) = Some invitation
      \<and> \<not> unlimited invitation
      \<and> find (\<lambda>u. user_code u = Some c) (user_query d) = Some existing_user
      \<and> identity_id existing_user = Some g \<and> g \<noteq> 0 \<longrightarrow>
    identity_id (fst (create_user_with_identity_linking cleanup email_re d user_kwargs)) = Some g)
   \<and> (user_code first_kwargs = Some c \<and> user_code user_kwargs = Some c \<and> c \<noteq> []
      \<and> find (\<lambda>i. inv_code i = c)
            (invitations (snd (create_user_with_identity_linking cleanup1 email_re1 d first_kwargs)))
          = Some invitation
      \<and> \<not> unlimited invitation
      \<and> (\<forall>u \<in> set (users (snd (create_user_with_identity_linking cleanup1 email_re1 d first_kwargs))
                    @ butlast (new_users
                        (snd (create_user_with_identity_linking cleanup1 email_re1 d first_kwargs)))).
            user_code u \<noteq> Some c)
      \<and> identity_id (fst (create_user_with_identity_linking cleanup1 email_re1 d first_kwargs))
          = Some g
      \<and> g \<noteq> 0 \<longrightarrow>
    identity_id (fst (create_user_with_identity_linking cleanup email_re
                        (snd (create_user_with_identity_linking cleanup1 email_re1 d first_kwargs))
                        user_kwargs)) = Some g)"
  apply (intro conjI impI)
   apply (elim conjE)
   apply (rule limited_lookup; assumption)
  apply (elim conjE)
  apply (rule limited_chain; assumption)
  done

theorem limited_invitation_adopts_group_witness:
  "user_code (candidate ''ABC123'' ''b@y.org'') = Some ''ABC123'' \<and> ''ABC123'' \<noteq> []
   \<and> find (\<lambda>i. inv_code i = ''ABC123'') (invitations invite_db)
       = Some \<lparr>inv_code = ''ABC123'', unlimited = False\<rparr>
   \<and> \<not> unlimited \<lparr>inv_code = ''ABC123'', unlimited = False\<rparr>
   \<and> find (\<lambda>u. user_code u = Some ''ABC123'') (user_query invite_db) = Some alice_row
   \<and> identity_id alice_row = Some 5
   \<and> user_email alice_row \<noteq> user_email (candidate ''ABC123'' ''b@y.org'')
   \<and> identity_id (fst (create_user_with_identity_linking no_cleanup contains_at invite_db
                         (candidate ''ABC123'' ''b@y.org''))) = Some 5
   \<and> create_user_with_identity_linking no_cleanup contains_at open_db
         (first_redeemer ''ABC123'' ''a@x.com'' 5)
       = (first_redeemer ''ABC123'' ''a@x.com'' 5,
          open_db\<lparr>new_users := [first_redeemer ''ABC123'' ''a@x.com'' 5]\<rparr>)
   \<and> users (open_db\<lparr>new_users := [first_redeemer ''ABC123'' ''a@x.com'' 5]\<rparr>) = []
   \<and> identity_id (fst (create_user_with_identity_linking no_cleanup contains_at
                         (snd (create_user_with_identity_linking no_cleanup contains_at open_db
                                 (first_redeemer ''ABC123'' ''a@x.com'' 5)))
                         (candidate ''ABC123'' ''b@y.org''))) = Some 5"
proof -
  let ?inv = "\<lparr>inv_code = ''ABC123'', unlimited = False\<rparr>"
  let ?one = "first_redeemer ''ABC123'' ''a@x.com'' 5"
  let ?first = "create_user_with_identity_linking no_cleanup contains_at open_db ?one"
  have h1: "user_code (candidate ''ABC123'' ''b@y.org'') = Some ''ABC123''"
    by (simp add: candidate_def)
  have h2: "''ABC123'' \<noteq> []" by simp
  have h3: "find (\<lambda>i. inv_code i = ''ABC123'') (invitations invite_db) = Some ?inv"
    by (simp add: invite_db_def empty_db_def)
  have h4: "\<not> unlimited ?inv" by simp
  have h5: "find (\<lambda>u. user_code u = Some ''ABC123'') (user_query invite_db) = Some alice_row"
    by (simp add: user_query_def invite_db_def empty_db_def alice_row_def carol_row_def)
  have h6: "identity_id alice_row = Some 5" by (simp add: alice_row_def)
  have h7: "(5::int) \<noteq> 0" by simp
  have e: "user_email alice_row \<noteq> user_email (candidate ''ABC123'' ''b@y.org'')"
    by (simp add: candidate_def alice_row_def)
  have hyp_stored: "user_code (candidate ''ABC123'' ''b@y.org'') = Some ''ABC123'' \<and> ''ABC123'' \<noteq> []
      \<and> find (\<lambda>i. inv_code i = ''ABC123'') (invitations invite_db) = Some ?inv
      \<and> \<not> unlimited ?inv
      \<and> find (\<lambda>u. user_code u = Some ''ABC123'') (user_query invite_db) = Some alice_row
      \<and> identity_id alice_row = Some 5 \<and> (5::int) \<noteq> 0"
    by (intro conjI h1 h2 h3 h4 h5 h6 h7)
  have stored: "identity_id (fst (create_user_with_identity_linking no_cleanup contains_at
                   invite_db (candidate ''ABC123'' ''b@y.org''))) = Some 5"
    by (rule limited_invitation_adopts_group [THEN conjunct1, THEN mp, OF hyp_stored])
  have k1: "user_code ?one = Some ''ABC123''"
    by (simp add: first_redeemer_def candidate_def)
  have em: "user_email ?one = Some ''a@x.com''"
    by (simp add: first_redeemer_def candidate_def)
  have q0: "user_query open_db = []"
    by (simp add: user_query_def open_db_def empty_db_def)
  have n0: "new_users open_db = []"
    by (simp add: open_db_def empty_db_def)
  have u0: "users (open_db\<lparr>new_users := [?one]\<rparr>) = []"
    by (simp add: open_db_def empty_db_def)
  have l: "link_identity contains_at open_db ?one = ?one"
    by (simp add: link_identity_def q0 split: option.splits)
  have r: "?first = (?one, open_db\<lparr>new_users := [?one]\<rparr>)"
    by (simp add: create_user_with_identity_linking_def Let_def l em n0 no_cleanup_def)
  have i1: "find (\<lambda>i. inv_code i = ''ABC123'') (invitations (snd ?first)) = Some ?inv"
    unfolding r by (simp add: open_db_def empty_db_def)
  have none: "\<forall>u \<in> set (users (snd ?first) @ butlast (new_users (snd ?first))).
                user_code u \<noteq> Some ''ABC123''"
    unfolding r by (simp add: u0)
  have g1: "identity_id (fst ?first) = Some 5"
    unfolding r by (simp add: first_redeemer_def)
  have hyp_chained: "user_code ?one = Some ''ABC123''
      \<and> user_code (candidate ''ABC123'' ''b@y.org'') = Some ''ABC123'' \<and> ''ABC123'' \<noteq> []
      \<and> find (\<lambda>i. inv_code i = ''ABC123'') (invitations (snd ?first)) = Some ?inv
      \<and> \<not> unlimited ?inv
      \<and> (\<forall>u \<in> set (users (snd ?first) @ butlast (new_users (snd ?first))).
            user_code u \<noteq> Some ''ABC123'')
      \<and> identity_id (fst ?first) = Some 5 \<and> (5::int) \<noteq> 0"
    by (intro conjI k1 h1 h2 i1 h4 none g1 h7)
  have chained: "identity_id (fst (create_user_with_identity_linking no_cleanup contains_at
                         (snd ?first) (candidate ''ABC123'' ''b@y.org''))) = Some 5"
    by (rule limited_invitation_adopts_group [THEN conjunct2, THEN mp, OF hyp_chained])
  show ?thesis
    by (intro conjI h1 h2 h3 h4 h5 h6 e stored r u0 chained)
qed

lemma unlimited_lookup:
  assumes "user_code user_kwargs = Some c" and "c \<noteq> []"
    and "find (\<lambda>i. inv_code i = c) (invitations d) = Some invitation"
    and "unlimited invitation"
  shows "(identity_id (fst (create_user_with_identity_linking cleanup email_re d user_kwargs))
            \<noteq> identity_id user_kwargs \<longrightarrow>
          (\<exists>e u. user_email user_kwargs = Some e \<and> e \<noteq> [] \<and> email_re e \<and> u \<in> set (user_query d)
             \<and> user_code u = Some c \<and> user_email u = Some e \<and> truthy_int (identity_id u)
             \<and> identity_id (fst (create_user_with_identity_linking cleanup email_re d user_kwargs))
                 = identity_id u))
       \<and> (\<not> (\<exists>e. user_email user_kwargs = Some e \<and> e \<noteq> [] \<and> email_re e
                \<and> (\<exists>u \<in> set (user_query d). user_code u = Some c \<and> user_email u = Some e)) \<longrightarrow>
          identity_id (fst (create_user_with_identity_linking cleanup email_re d user_kwargs))
            = identity_id user_kwargs)
       \<and> (\<forall>e u g. user_email user_kwargs = Some e \<and> e \<noteq> [] \<and> email_re e
             \<and> find (\<lambda>u. user_code u = Some c \<and> user_email u = Some e) (user_query d) = Some u
             \<and> identity_id u = Some g \<and> g \<noteq> 0 \<longrightarrow>
          identity_id (fst (create_user_with_identity_linking cleanup email_re d user_kwargs))
            = Some g)"
proof -
  let ?new = "fst (create_user_with_identity_linking cleanup email_re d user_kwargs)"
  have adopt: "\<exists>e u. user_email user_kwargs = Some e \<and> e \<noteq> [] \<and> email_re e \<and> u \<in> set (user_query d)
             \<and> user_code u = Some c \<and> user_email u = Some e \<and> truthy_int (identity_id u)
             \<and> identity_id ?new = identity_id u"
    if changed: "identity_id ?new \<noteq> identity_id user_kwargs"
  proof -
    from changed assms obtain e where
      e: "user_email user_kwargs = Some e" "e \<noteq> []" "email_re e"
      by (cases "user_email user_kwargs")
         (auto simp: create_user_with_identity_linking_def link_identity_def Let_def
               split: if_splits)
    from changed assms e obtain u where
      u: "find (\<lambda>u. user_code u = Some c \<and> user_email u = Some e) (user_query d) = Some u"
      by (cases "find (\<lambda>u. user_code u = Some c \<and> user_email u = Some e) (user_query d)")
         (auto simp: create_user_with_identity_linking_def link_identity_def Let_def)
    from changed assms e u have "truthy_int (identity_id u)" "identity_id ?new = identity_id u"
      by (auto simp: create_user_with_identity_linking_def link_identity_def Let_def
               split: if_splits)
    with e u find_SomeD [OF u] show ?thesis by auto
  qed
  have none: "identity_id ?new = identity_id user_kwargs"
    if "\<not> (\<exists>e. user_email user_kwargs = Some e \<and> e \<noteq> [] \<and> email_re e
                \<and> (\<exists>u \<in> set (user_query d). user_code u = Some c \<and> user_email u = Some e))"
    using that adopt by blast
  have same: "identity_id ?new = Some g"
    if "user_email user_kwargs = Some e \<and> e \<noteq> [] \<and> email_re e
             \<and> find (\<lambda>u. user_code u = Some c \<and> user_email u = Some e) (user_query d) = Some u
             \<and> identity_id u = Some g \<and> g \<noteq> 0" for e u g
    using that assms
    by (simp add: create_user_with_identity_linking_def link_identity_def Let_def)
  from adopt none same show ?thesis by blast
qed

lemma unlimited_chain:
  assumes c1: "user_code first_kwargs = Some c" and e1: "user_email first_kwargs = Some e"
    and c2: "user_code user_kwargs = Some c" and e2: "user_email user_kwargs = Some e"
    and ne: "c \<noteq> []" and ee: "e \<noteq> []" and re: "email_re e"
    and inv: "find (\<lambda>i. inv_code i = c)
            (invitations (snd (create_user_with_identity_linking cleanup1 email_re1 d first_kwargs)))
          = Some invitation"
    and unl: "unlimited invitation"
    and none: "\<forall>u \<in> set (users (snd (create_user_with_identity_linking cleanup1 email_re1 d first_kwargs))
                    @ butlast (new_users
                        (snd (create_user_with_identity_linking cleanup1 email_re1 d first_kwargs)))).
            \<not> (user_code u = Some c \<and> user_email u = Some e)"
    and g: "identity_id (fst (create_user_with_identity_linking cleanup1 email_re1 d first_kwargs))
          = Some g"
    and g0: "g \<noteq> 0"
  shows "identity_id (fst (create_user_with_identity_linking cleanup email_re
                        (snd (create_user_with_identity_linking cleanup1 email_re1 d first_kwargs))
                        user_kwargs)) = Some g"
proof -
  let ?first = "create_user_with_identity_linking cleanup1 email_re1 d first_kwargs"
  have both: "user_code (fst ?first) = Some c \<and> user_email (fst ?first) = Some e"
    unfolding created_code created_email by (intro conjI c1 e1)
  have seen: "find (\<lambda>u. user_code u = Some c \<and> user_email u = Some e) (user_query (snd ?first))
                = Some (fst ?first)"
    by (rule first_record_is_seen [OF none both])
  have all: "user_email user_kwargs = Some e \<and> e \<noteq> [] \<and> email_re e
             \<and> find (\<lambda>u. user_code u = Some c \<and> user_email u = Some e) (user_query (snd ?first))
                 = Some (fst ?first)
             \<and> identity_id (fst ?first) = Some g \<and> g \<noteq> 0"
    by (intro conjI e2 ee re seen g g0)
  show ?thesis
    by (rule unlimited_lookup [OF c2 ne inv unl, where cleanup = cleanup and email_re = email_re,
          THEN conjunct2, THEN conjunct2,
          THEN spec, THEN spec, THEN spec, THEN mp, OF all])
qed

text \<open>
  C2. The candidate carries a code whose invitation is unlimited. The new user's identity
  group differs from the one in the candidate's fields only if the candidate's email is
  non-empty, matches the email pattern, and a user the lookup sees (stored, or pending in
  the session) with the same code and the same email has an identity group, which is
  then the one adopted; with no such email or no such user the group stays as the
  candidate had it; and when the first user seen with the same code and email has a
  group, the new user gets it. In particular, when a first redemption has left its record
  in the session, a later redemption in the same session with the same code and email
  gets the group of that record.
\<close>

theorem unlimited_invitation_links_by_email:
  "(user_code user_kwargs = Some c \<and> c \<noteq> []
      \<and> find (\<lambda>i. inv_code i = c) (invitations d) = Some invitation
      \<and> unlimited invitation \<longrightarrow>
    (identity_id (fst (create_user_with_identity_linking cleanup email_re d user_kwargs))
                \<noteq> identity_id user_kwargs \<longrightarrow>
              (\<exists>e u. user_email user_kwargs = Some e \<and> e \<noteq> [] \<and> email_re e \<and> u \<in> set (user_query d)
                 \<and> user_code u = Some c \<and> user_email u = Some e \<and> truthy_int (identity_id u)
                 \<and> identity_id (fst (create_user_with_identity_linking cleanup email_re d user_kwargs))
                     = identity_id u))
           \<and> (\<not> (\<exists>e. user_email user_kwargs = Some e \<and> e \<noteq> [] \<and> email_re e
                    \<and> (\<exists>u \<in> set (user_query d). user_code u = Some c \<and> user_email u = Some e)) \<longrightarrow>
              identity_id (fst (create_user_with_identity_linking cleanup email_re d user_kwargs))
                = identity_id user_kwargs)
           \<and> (\<forall>e u g. user_email user_kwargs = Some e \<and> e \<noteq> [] \<and> email_re e
                 \<and> find (\<lambda>u. user_code u = Some c \<and> user_email u = Some e) (user_query d) = Some u
                 \<and> identity_id u = Some g \<and> g \<noteq> 0 \<longrightarrow>
              identity_id (fst (create_user_with_identity_linking cleanup email_re d user_kwargs))
                = Some g))
   \<and> (user_code first_kwargs = Some c \<and> user_email first_kwargs = Some e1
      \<and> user_code user_kwargs = Some c \<and> user_email user_kwargs = Some e1
      \<and> c \<noteq> [] \<and> e1 \<noteq> [] \<and> email_re e1
      \<and> find (\<lambda>i. inv_code i = c)
            (invitations (snd (create_user_with_identity_linking cleanup1 email_re1 d first_kwargs)))
          = Some invitation
      \<and> unlimited invitation
      \<and> (\<forall>u \<in> set (users (snd (create_user_with_identity_linking cleanup1 email_re1 d first_kwargs))
                    @ butlast (new_users
                        (snd (create_user_with_identity_linking cleanup1 email_re1 d first_kwargs)))).
            \<not> (user_code u = Some c \<and> user_email u = Some e1))
      \<and> identity_id (fst (create_user_with_identity_linking cleanup1 email_re1 d first_kwargs))
          = Some g1
      \<and> g1 \<noteq> 0 \<longrightarrow>
    identity_id (fst (create_user_with_identity_linking cleanup email_re
                        (snd (create_user_with_identity_linking cleanup1 email_re1 d first_kwargs))
                        user_kwargs)) = Some g1)"
  apply (rule conjI)
   apply (rule impI)
   apply (elim conjE)
   apply (rule unlimited_lookup; assumption)
  apply (rule impI)
  apply (elim conjE)
  apply (rule unlimited_chain; assumption)
  done

theorem unlimited_invitation_links_by_email_witness:
  "user_code (candidate ''WELCOME'' ''b@x.com'') = Some ''WELCOME''
   \<and> user_code (candidate ''WELCOME'' ''a@x.com'') = Some ''WELCOME''
   \<and> find (\<lambda>i. inv_code i = ''WELCOME'') (invitations invite_db)
       = Some \<lparr>inv_code = ''WELCOME'', unlimited = True\<rparr>
   \<and> identity_id (fst (create_user_with_identity_linking no_cleanup contains_at invite_db
                         (candidate ''WELCOME'' ''b@x.com''))) = None
   \<and> identity_id (fst (create_user_with_identity_linking no_cleanup contains_at invite_db
                         (candidate ''WELCOME'' ''a@x.com''))) = Some 3
   \<and> create_user_with_identity_linking no_cleanup contains_at open_db
         (first_redeemer ''WELCOME'' ''a@x.com'' 3)
       = (first_redeemer ''WELCOME'' ''a@x.com'' 3,
          open_db\<lparr>new_users := [first_redeemer ''WELCOME'' ''a@x.com'' 3]\<rparr>)
   \<and> identity_id (fst (create_user_with_identity_linking no_cleanup contains_at
                         (open_db\<lparr>new_users := [first_redeemer ''WELCOME'' ''a@x.com'' 3]\<rparr>)
                         (candidate ''WELCOME'' ''b@x.com''))) = None
   \<and> identity_id (fst (create_user_with_identity_linking no_cleanup contains_at
                         (snd (create_user_with_identity_linking no_cleanup contains_at open_db
                                 (first_redeemer ''WELCOME'' ''a@x.com'' 3)))
                         (candidate ''WELCOME'' ''a@x.com''))) = Some 3"
proof -
  let ?inv = "\<lparr>inv_code = ''WELCOME'', unlimited = True\<rparr>"
  let ?one = "first_redeemer ''WELCOME'' ''a@x.com'' 3"
  let ?first = "create_user_with_identity_linking no_cleanup contains_at open_db ?one"
  let ?mid = "open_db\<lparr>new_users := [?one]\<rparr>"
  have inv: "find (\<lambda>i. inv_code i = ''WELCOME'') (invitations invite_db) = Some ?inv"
    by (simp add: invite_db_def empty_db_def)
  have unl: "unlimited ?inv" by simp
  have ne: "''WELCOME'' \<noteq> []" by simp
  have cb: "user_code (candidate ''WELCOME'' ''b@x.com'') = Some ''WELCOME''"
    by (simp add: candidate_def)
  have ca: "user_code (candidate ''WELCOME'' ''a@x.com'') = Some ''WELCOME''"
    by (simp add: candidate_def)
  have us: "user_query invite_db = [alice_row, carol_row]"
    by (simp add: user_query_def invite_db_def empty_db_def)
  have eb: "user_email (candidate ''WELCOME'' ''b@x.com'') = Some ''b@x.com''"
    by (simp add: candidate_def)
  have rows: "user_email alice_row \<noteq> Some ''b@x.com''" "user_email carol_row \<noteq> Some ''b@x.com''"
    by (simp_all add: alice_row_def carol_row_def)
  have nomatch: "\<not> (\<exists>e. user_email (candidate ''WELCOME'' ''b@x.com'') = Some e \<and> e \<noteq> []
        \<and> contains_at e
        \<and> (\<exists>u \<in> set (user_query invite_db). user_code u = Some ''WELCOME'' \<and> user_email u = Some e))"
    unfolding us eb using rows by auto
  have idb: "identity_id (candidate ''WELCOME'' ''b@x.com'') = None"
    by (simp add: candidate_def)
  have m1: "user_email (candidate ''WELCOME'' ''a@x.com'') = Some ''a@x.com''"
    by (simp add: candidate_def)
  have m2: "''a@x.com'' \<noteq> []" by simp
  have m3: "contains_at ''a@x.com''" by (simp add: contains_at_def)
  have m4: "find (\<lambda>u. user_code u = Some ''WELCOME'' \<and> user_email u = Some ''a@x.com'')
             (user_query invite_db) = Some carol_row"
    unfolding us by (simp add: alice_row_def carol_row_def)
  have m5: "identity_id carol_row = Some 3" by (simp add: carol_row_def)
  have m6: "(3::int) \<noteq> 0" by simp
  have match: "user_email (candidate ''WELCOME'' ''a@x.com'') = Some ''a@x.com'' \<and> ''a@x.com'' \<noteq> []
        \<and> contains_at ''a@x.com''
        \<and> find (\<lambda>u. user_code u = Some ''WELCOME'' \<and> user_email u = Some ''a@x.com'')
             (user_query invite_db) = Some carol_row
        \<and> identity_id carol_row = Some 3 \<and> (3::int) \<noteq> 0"
    by (intro conjI m1 m2 m3 m4 m5 m6)
  have Hb: "user_code (candidate ''WELCOME'' ''b@x.com'') = Some ''WELCOME'' \<and> ''WELCOME'' \<noteq> []
      \<and> find (\<lambda>i. inv_code i = ''WELCOME'') (invitations invite_db) = Some ?inv \<and> unlimited ?inv"
    by (intro conjI cb ne inv unl)
  have Ha: "user_code (candidate ''WELCOME'' ''a@x.com'') = Some ''WELCOME'' \<and> ''WELCOME'' \<noteq> []
      \<and> find (\<lambda>i. inv_code i = ''WELCOME'') (invitations invite_db) = Some ?inv \<and> unlimited ?inv"
    by (intro conjI ca ne inv unl)
  note tb = unlimited_invitation_links_by_email
      [where cleanup = no_cleanup and email_re = contains_at and d = invite_db
         and user_kwargs = "candidate ''WELCOME'' ''b@x.com''" and c = "''WELCOME''"
         and invitation = ?inv, THEN conjunct1, THEN mp, OF Hb]
  note ta = unlimited_invitation_links_by_email
      [where cleanup = no_cleanup and email_re = contains_at and d = invite_db
         and user_kwargs = "candidate ''WELCOME'' ''a@x.com''" and c = "''WELCOME''"
         and invitation = ?inv, THEN conjunct1, THEN mp, OF Ha]
  have b: "identity_id (fst (create_user_with_identity_linking no_cleanup contains_at invite_db
                         (candidate ''WELCOME'' ''b@x.com''))) = None"
    by (rule trans [OF tb [THEN conjunct2, THEN conjunct1, THEN mp, OF nomatch] idb])
  have a: "identity_id (fst (create_user_with_identity_linking no_cleanup contains_at invite_db
                         (candidate ''WELCOME'' ''a@x.com''))) = Some 3"
    by (rule ta [THEN conjunct2, THEN conjunct2, THEN spec, THEN spec, THEN spec, THEN mp,
          OF match])
  have k1: "user_code ?one = Some ''WELCOME''"
    by (simp add: first_redeemer_def candidate_def)
  have em: "user_email ?one = Some ''a@x.com''"
    by (simp add: first_redeemer_def candidate_def)
  have q0: "user_query open_db = []"
    by (simp add: user_query_def open_db_def empty_db_def)
  have n0: "new_users open_db = []"
    by (simp add: open_db_def empty_db_def)
  have u0: "users ?mid = []"
    by (simp add: open_db_def empty_db_def)
  have l: "link_identity contains_at open_db ?one = ?one"
    by (simp add: link_identity_def q0 split: option.splits)
  have r: "?first = (?one, ?mid)"
    by (simp add: create_user_with_identity_linking_def Let_def l em n0 no_cleanup_def)
  have i1: "find (\<lambda>i. inv_code i = ''WELCOME'') (invitations (snd ?first)) = Some ?inv"
    unfolding r by (simp add: open_db_def empty_db_def)
  have i2: "find (\<lambda>i. inv_code i = ''WELCOME'') (invitations ?mid) = Some ?inv"
    by (simp add: open_db_def empty_db_def)
  have none: "\<forall>u \<in> set (users (snd ?first) @ butlast (new_users (snd ?first))).
                \<not> (user_code u = Some ''WELCOME'' \<and> user_email u = Some ''a@x.com'')"
    unfolding r by (simp add: u0)
  have g1: "identity_id (fst ?first) = Some 3"
    unfolding r by (simp add: first_redeemer_def)
  have hyp_chained: "user_code ?one = Some ''WELCOME'' \<and> user_email ?one = Some ''a@x.com''
      \<and> user_code (candidate ''WELCOME'' ''a@x.com'') = Some ''WELCOME''
      \<and> user_email (candidate ''WELCOME'' ''a@x.com'') = Some ''a@x.com''
      \<and> ''WELCOME'' \<noteq> [] \<and> ''a@x.com'' \<noteq> [] \<and> contains_at ''a@x.com''
      \<and> find (\<lambda>i. inv_code i = ''WELCOME'') (invitations (snd ?first)) = Some ?inv
      \<and> unlimited ?inv
      \<and> (\<forall>u \<in> set (users (snd ?first) @ butlast (new_users (snd ?first))).
            \<not> (user_code u = Some ''WELCOME'' \<and> user_email u = Some ''a@x.com''))
      \<and> identity_id (fst ?first) = Some 3 \<and> (3::int) \<noteq> 0"
    by (intro conjI k1 em ca m1 ne m2 m3 i1 unl none g1 m6)
  have chained: "identity_id (fst (create_user_with_identity_linking no_cleanup contains_at
                         (snd ?first) (candidate ''WELCOME'' ''a@x.com''))) = Some 3"
    by (rule unlimited_invitation_links_by_email
          [where cleanup = no_cleanup and email_re = contains_at,
           THEN conjunct2, THEN mp, OF hyp_chained])
  have qm: "user_query ?mid = [?one]"
    by (simp add: user_query_def open_db_def empty_db_def)
  have one_b: "user_email ?one \<noteq> Some ''b@x.com''"
    by (simp add: em)
  have nomatch2: "\<not> (\<exists>e. user_email (candidate ''WELCOME'' ''b@x.com'') = Some e \<and> e \<noteq> []
        \<and> contains_at e
        \<and> (\<exists>u \<in> set (user_query ?mid). user_code u = Some ''WELCOME'' \<and> user_email u = Some e))"
    unfolding qm eb using one_b by auto
  have Hm: "user_code (candidate ''WELCOME'' ''b@x.com'') = Some ''WELCOME'' \<and> ''WELCOME'' \<noteq> []
      \<and> find (\<lambda>i. inv_code i = ''WELCOME'') (invitations ?mid) = Some ?inv \<and> unlimited ?inv"
    by (intro conjI cb ne i2 unl)
  note tm = unlimited_invitation_links_by_email
      [where cleanup = no_cleanup and email_re = contains_at and d = ?mid
         and user_kwargs = "candidate ''WELCOME'' ''b@x.com''" and c = "''WELCOME''"
         and invitation = ?inv, THEN conjunct1, THEN mp, OF Hm]
  have other: "identity_id (fst (create_user_with_identity_linking no_cleanup contains_at ?mid
                         (candidate ''WELCOME'' ''b@x.com''))) = None"
    by (rule trans [OF tm [THEN conjunct2, THEN conjunct1, THEN mp, OF nomatch2] idb])
  show ?thesis by (intro conjI cb ca inv b a r other chained)
qed

section \<open>The scan over the Jellyfin servers\<close>

lemma posted_urls_append: "posted_urls (xs @ ys) = posted_urls xs @ posted_urls ys"
  by (induction xs rule: posted_urls.induct) auto

lemma posted_urls_server:
  "posted_urls (fst (authenticate_against_server http u username password)) = [auth_url u]"
  by (simp add: authenticate_against_server_def Let_def auth_request_def log_exception_def
      split: sum.splits py_exn.splits)

lemma loop_step:
  "authenticate_loop http username password (server # rest) =
     (let r = authenticate_against_server http (ms_url server) username password in
      case snd r of
        Inr (True, user_info) \<Rightarrow> (fst r, True, Some (ms_name server), user_info)
      | Inr (False, user_info) \<Rightarrow>
          (fst r @ fst (authenticate_loop http username password rest),
           snd (authenticate_loop http username password rest))
      | Inl e \<Rightarrow>
          (fst r @ [Logged WARNING (Failed_to_authenticate_against (ms_name server) e)]
             @ fst (authenticate_loop http username password rest),
           snd (authenticate_loop http username password rest)))"
  by (simp add: Let_def split: prod.splits sum.splits bool.splits)

lemma loop_first_success:
  assumes "\<forall>t \<in> set pre. \<forall>i. snd (authenticate_against_server http (ms_url t) username password)
             \<noteq> Inr (True, i)"
    and "snd (authenticate_against_server http (ms_url server) username password) = Inr (True, info)"
  shows "snd (authenticate_loop http username password (pre @ server # post))
           = (True, Some (ms_name server), info)
         \<and> posted_urls (fst (authenticate_loop http username password (pre @ server # post)))
           = map (\<lambda>t. auth_url (ms_url t)) (pre @ [server])
         \<and> (\<forall>t \<in> set pre. \<forall>e.
               snd (authenticate_against_server http (ms_url t) username password) = Inl e \<longrightarrow>
               Logged WARNING (Failed_to_authenticate_against (ms_name t) e)
                 \<in> set (fst (authenticate_loop http username password (pre @ server # post))))"
  using assms
proof (induction pre)
  case Nil
  then show ?case
    by (simp add: loop_step posted_urls_server del: authenticate_loop.simps)
next
  case (Cons a pre)
  then show ?case
    by (auto simp: loop_step Let_def posted_urls_server posted_urls_append
        simp del: authenticate_loop.simps split: sum.splits bool.splits)
qed

lemma loop_no_success:
  assumes "\<forall>t \<in> set servers. \<forall>i. snd (authenticate_against_server http (ms_url t) username password)
             \<noteq> Inr (True, i)"
  shows "snd (authenticate_loop http username password servers) = (False, None, None)
         \<and> posted_urls (fst (authenticate_loop http username password servers))
           = map (\<lambda>t. auth_url (ms_url t)) servers
         \<and> (\<forall>t \<in> set servers. \<forall>e.
               snd (authenticate_against_server http (ms_url t) username password) = Inl e \<longrightarrow>
               Logged WARNING (Failed_to_authenticate_against (ms_name t) e)
                 \<in> set (fst (authenticate_loop http username password servers)))"
  using assms
proof (induction servers)
  case Nil
  then show ?case by simp
next
  case (Cons a servers)
  then show ?case
    by (auto simp: loop_step Let_def posted_urls_server posted_urls_append
        simp del: authenticate_loop.simps split: sum.splits bool.splits)
qed

lemma server_outcomes:
  "(http (auth_request u username password) = Inl e \<longrightarrow>
      snd (authenticate_against_server http u username password) = Inl e)
   \<and> (http (auth_request u username password) = Inr response \<and> status_code response = 401 \<longrightarrow>
      snd (authenticate_against_server http u username password) = Inr (False, None))
   \<and> (http (auth_request u username password) = Inr response \<and> status_code response = 200
        \<and> json_result response = Inr user_data \<and> extract_user_info user_data = Inr user_info \<longrightarrow>
      snd (authenticate_against_server http u username password) = Inr (True, Some user_info))"
  by (simp add: authenticate_against_server_def Let_def sum_bind_def)

text \<open>
  C3. With \<open>servers\<close> the configured Jellyfin servers in table order: if the first
  server whose check succeeds is \<open>server\<close>, the result is success with that server's
  name and the user info of its check, the requests made are those of the servers up to
  and including it, and every earlier server whose check raised has its warning in the
  log; if no server's check succeeds (also when there is none), the result is
  \<open>(False, None, None)\<close> after one request to each server. A check whose request
  raises re-raises the exception, a 401 response gives \<open>(False, None)\<close>, and a 200
  response with a usable body gives \<open>(True, user_info)\<close>.
\<close>

theorem authenticate_jellyfin_user_scan:
  assumes servers: "servers = filter (\<lambda>s. ms_server_type s = ''jellyfin'') (media_servers d)"
  shows "(servers = pre @ server # post
          \<and> (\<forall>t \<in> set pre. \<forall>i.
                snd (authenticate_against_server http (ms_url t) username password) \<noteq> Inr (True, i))
          \<and> snd (authenticate_against_server http (ms_url server) username password)
              = Inr (True, info) \<longrightarrow>
            snd (authenticate_jellyfin_user http d username password)
              = (True, Some (ms_name server), info)
            \<and> posted_urls (fst (authenticate_jellyfin_user http d username password))
              = map (\<lambda>t. auth_url (ms_url t)) (pre @ [server])
            \<and> (\<forall>t \<in> set pre. \<forall>e.
                  snd (authenticate_against_server http (ms_url t) username password) = Inl e \<longrightarrow>
                  Logged WARNING (Failed_to_authenticate_against (ms_name t) e)
                    \<in> set (fst (authenticate_jellyfin_user http d username password))))
       \<and> ((\<forall>t \<in> set servers. \<forall>i.
                snd (authenticate_against_server http (ms_url t) username password) \<noteq> Inr (True, i))
            \<longrightarrow>
            snd (authenticate_jellyfin_user http d username password) = (False, None, None)
            \<and> posted_urls (fst (authenticate_jellyfin_user http d username password))
              = map (\<lambda>t. auth_url (ms_url t)) servers
            \<and> (\<forall>t \<in> set servers. \<forall>e.
                  snd (authenticate_against_server http (ms_url t) username password) = Inl e \<longrightarrow>
                  Logged WARNING (Failed_to_authenticate_against (ms_name t) e)
                    \<in> set (fst (authenticate_jellyfin_user http d username password))))
       \<and> (http (auth_request u username password) = Inl e' \<longrightarrow>
            snd (authenticate_against_server http u username password) = Inl e')
       \<and> (http (auth_request u username password) = Inr response \<and> status_code response = 401 \<longrightarrow>
            snd (authenticate_against_server http u username password) = Inr (False, None))
       \<and> (http (auth_request u username password) = Inr response \<and> status_code response = 200
            \<and> json_result response = Inr user_data
            \<and> extract_user_info user_data = Inr user_info \<longrightarrow>
            snd (authenticate_against_server http u username password)
              = Inr (True, Some user_info))"
proof -
  have A: "snd (authenticate_jellyfin_user http d username password)
              = (True, Some (ms_name server), info)
            \<and> posted_urls (fst (authenticate_jellyfin_user http d username password))
              = map (\<lambda>t. auth_url (ms_url t)) (pre @ [server])
            \<and> (\<forall>t \<in> set pre. \<forall>e.
                  snd (authenticate_against_server http (ms_url t) username password) = Inl e \<longrightarrow>
                  Logged WARNING (Failed_to_authenticate_against (ms_name t) e)
                    \<in> set (fst (authenticate_jellyfin_user http d username password)))"
    if h: "servers = pre @ server # post"
      "\<forall>t \<in> set pre. \<forall>i.
          snd (authenticate_against_server http (ms_url t) username password) \<noteq> Inr (True, i)"
      "snd (authenticate_against_server http (ms_url server) username password) = Inr (True, info)"
  proof -
    have run: "authenticate_jellyfin_user http d username password
                = authenticate_loop http username password (pre @ server # post)"
      using h(1) servers by (simp add: authenticate_jellyfin_user_def Let_def)
    show ?thesis
      unfolding run by (rule loop_first_success [OF h(2) h(3)])
  qed
  have B: "snd (authenticate_jellyfin_user http d username password) = (False, None, None)
            \<and> posted_urls (fst (authenticate_jellyfin_user http d username password))
              = map (\<lambda>t. auth_url (ms_url t)) servers
            \<and> (\<forall>t \<in> set servers. \<forall>e.
                  snd (authenticate_against_server http (ms_url t) username password) = Inl e \<longrightarrow>
                  Logged WARNING (Failed_to_authenticate_against (ms_name t) e)
                    \<in> set (fst (authenticate_jellyfin_user http d username password)))"
    if h: "\<forall>t \<in> set servers. \<forall>i.
          snd (authenticate_against_server http (ms_url t) username password) \<noteq> Inr (True, i)"
  proof (cases "servers = []")
    case True
    then show ?thesis
      using servers by (simp add: authenticate_jellyfin_user_def Let_def)
  next
    case False
    then have run: "authenticate_jellyfin_user http d username password
                = authenticate_loop http username password servers"
      using servers by (simp add: authenticate_jellyfin_user_def Let_def)
    show ?thesis
      unfolding run by (rule loop_no_success [OF h])
  qed
  from A B server_outcomes [of http u username password e' response user_data user_info]
  show ?thesis by blast
qed


theorem authenticate_jellyfin_user_scan_witness:
  "snd (authenticate_against_server third_accepts ''http://one'' ''dave'' ''pw'')
     = Inl (RequestException ''timed out'')
   \<and> snd (authenticate_against_server third_accepts ''http://two/'' ''dave'' ''pw'')
     = Inl (RequestException ''timed out'')
   \<and> snd (authenticate_against_server third_accepts ''http://three'' ''dave'' ''pw'')
     = Inr (True, Some dave_info)
   \<and> snd (authenticate_jellyfin_user third_accepts three_server_db ''dave'' ''pw'')
     = (True, Some ''Three'', Some dave_info)
   \<and> posted_urls (fst (authenticate_jellyfin_user third_accepts three_server_db ''dave'' ''pw''))
     = [''http://one/Users/AuthenticateByName'', ''http://two/Users/AuthenticateByName'',
        ''http://three/Users/AuthenticateByName'']
   \<and> Logged WARNING (Failed_to_authenticate_against ''One'' (RequestException ''timed out''))
       \<in> set (fst (authenticate_jellyfin_user third_accepts three_server_db ''dave'' ''pw''))
   \<and> snd (authenticate_jellyfin_user all_reject three_server_db ''dave'' ''pw'')
     = (False, None, None)
   \<and> snd (authenticate_jellyfin_user all_reject empty_db ''dave'' ''pw'') = (False, None, None)"
proof -
  let ?one = "jellyfin_row 1 ''One'' ''http://one''"
  let ?two = "jellyfin_row 2 ''Two'' ''http://two/''"
  let ?three = "jellyfin_row 3 ''Three'' ''http://three''"
  have servers: "[?one, ?two] @ ?three # []
      = filter (\<lambda>s. ms_server_type s = ''jellyfin'') (media_servers three_server_db)"
    by (simp add: three_server_db_def empty_db_def jellyfin_row_def)
  have none: "[] = filter (\<lambda>s. ms_server_type s = ''jellyfin'') (media_servers empty_db)"
    by (simp add: empty_db_def)
  have u1: "auth_url ''http://one'' = ''http://one/Users/AuthenticateByName''"
    and u2: "auth_url ''http://two/'' = ''http://two/Users/AuthenticateByName''"
    and u3: "auth_url ''http://three'' = ''http://three/Users/AuthenticateByName''"
    by (simp_all add: auth_url_def endswith_slash_def)
  have c1: "snd (authenticate_against_server third_accepts ''http://one'' ''dave'' ''pw'')
     = Inl (RequestException ''timed out'')"
    by (simp add: authenticate_against_server_def auth_request_def u1 third_accepts_def)
  have c2: "snd (authenticate_against_server third_accepts ''http://two/'' ''dave'' ''pw'')
     = Inl (RequestException ''timed out'')"
    by (simp add: authenticate_against_server_def auth_request_def u2 third_accepts_def)
  have ex: "extract_user_info dave_data = Inr dave_info"
    by (simp add: extract_user_info_def dave_data_def dave_info_def sum_bind_def
        dict_get_default_def)
  have c3: "snd (authenticate_against_server third_accepts ''http://three'' ''dave'' ''pw'')
     = Inr (True, Some dave_info)"
    by (simp add: authenticate_against_server_def auth_request_def u3 third_accepts_def
        sum_bind_def ex)
  have pre: "\<forall>t \<in> set [?one, ?two]. \<forall>i.
      snd (authenticate_against_server third_accepts (ms_url t) ''dave'' ''pw'') \<noteq> Inr (True, i)"
    by (simp add: jellyfin_row_def c1 c2)
  have hit: "snd (authenticate_against_server third_accepts (ms_url ?three) ''dave'' ''pw'')
     = Inr (True, Some dave_info)"
    by (simp add: jellyfin_row_def c3)
  note scan = authenticate_jellyfin_user_scan [OF servers, of "[?one, ?two]" ?three "[]"
      third_accepts "''dave''" "''pw''" "Some dave_info",
      THEN conjunct1, THEN mp, OF conjI [OF refl conjI [OF pre hit]]]
  have r1: "snd (authenticate_jellyfin_user third_accepts three_server_db ''dave'' ''pw'')
     = (True, Some ''Three'', Some dave_info)"
    using scan [THEN conjunct1] by (simp add: jellyfin_row_def)
  have r2: "posted_urls (fst (authenticate_jellyfin_user third_accepts three_server_db ''dave'' ''pw''))
     = [''http://one/Users/AuthenticateByName'', ''http://two/Users/AuthenticateByName'',
        ''http://three/Users/AuthenticateByName'']"
    using scan [THEN conjunct2, THEN conjunct1] by (simp add: jellyfin_row_def u1 u2 u3)
  have c1': "snd (authenticate_against_server third_accepts (ms_url ?one) ''dave'' ''pw'')
     = Inl (RequestException ''timed out'')"
    by (simp add: jellyfin_row_def c1)
  have r3: "Logged WARNING (Failed_to_authenticate_against ''One'' (RequestException ''timed out''))
       \<in> set (fst (authenticate_jellyfin_user third_accepts three_server_db ''dave'' ''pw''))"
    using scan [THEN conjunct2, THEN conjunct2, THEN bspec, of ?one, THEN spec, THEN mp, OF _ c1']
    by (simp add: jellyfin_row_def)
  have rej: "snd (authenticate_against_server all_reject v ''dave'' ''pw'') = Inr (False, None)" for v
    by (simp add: authenticate_against_server_def all_reject_def)
  have all: "\<forall>t \<in> set ([?one, ?two] @ ?three # []). \<forall>i.
      snd (authenticate_against_server all_reject (ms_url t) ''dave'' ''pw'') \<noteq> Inr (True, i)"
    by (simp add: rej)
  have r4: "snd (authenticate_jellyfin_user all_reject three_server_db ''dave'' ''pw'')
     = (False, None, None)"
    using authenticate_jellyfin_user_scan [OF servers, of "[]" ?one "[]" all_reject "''dave''" "''pw''",
        THEN conjunct2, THEN conjunct1, THEN mp, OF all]
    by (rule conjunct1)
  have r5: "snd (authenticate_jellyfin_user all_reject empty_db ''dave'' ''pw'') = (False, None, None)"
    using authenticate_jellyfin_user_scan [OF none, of "[]" ?one "[]" all_reject "''dave''" "''pw''",
        THEN conjunct2, THEN conjunct1, THEN mp]
    by simp
  show ?thesis by (intro conjI c1 c2 c3 r1 r2 r3 r4 r5)
qed

section \<open>Guest accounts from delegated authentication\<close>

lemma delegated_login_success:
  assumes "snd (authenticate_jellyfin_user http d username password)
             = (True, Some server_name, Some user_info)"
  shows "snd (delegated_login http hash_password tok d username password)
           = (case provision_guest_account hash_password tok d username server_name user_info of
                (evs', account, d') \<Rightarrow> (Some account, d'))"
  using assms
  by (cases "authenticate_jellyfin_user http d username password")
     (simp add: delegated_login_def split: prod.splits)

lemma third_accepts_scan:
  assumes "media_servers d = media_servers three_server_db"
  shows "snd (authenticate_jellyfin_user third_accepts d u p)
           = (True, Some ''Three'', Some dave_info)"
proof -
  let ?one = "jellyfin_row 1 ''One'' ''http://one''"
  let ?two = "jellyfin_row 2 ''Two'' ''http://two/''"
  let ?three = "jellyfin_row 3 ''Three'' ''http://three''"
  have servers: "filter (\<lambda>s. ms_server_type s = ''jellyfin'') (media_servers d)
      = [?one, ?two] @ ?three # []"
    by (simp add: assms three_server_db_def empty_db_def jellyfin_row_def)
  have u1: "auth_url ''http://one'' = ''http://one/Users/AuthenticateByName''"
    and u2: "auth_url ''http://two/'' = ''http://two/Users/AuthenticateByName''"
    and u3: "auth_url ''http://three'' = ''http://three/Users/AuthenticateByName''"
    by (simp_all add: auth_url_def endswith_slash_def)
  have c1: "snd (authenticate_against_server third_accepts ''http://one'' u p)
     = Inl (RequestException ''timed out'')"
    by (simp add: authenticate_against_server_def auth_request_def u1 third_accepts_def)
  have c2: "snd (authenticate_against_server third_accepts ''http://two/'' u p)
     = Inl (RequestException ''timed out'')"
    by (simp add: authenticate_against_server_def auth_request_def u2 third_accepts_def)
  have ex: "extract_user_info dave_data = Inr dave_info"
    by (simp add: extract_user_info_def dave_data_def dave_info_def sum_bind_def
        dict_get_default_def)
  have c3: "snd (authenticate_against_server third_accepts ''http://three'' u p)
     = Inr (True, Some dave_info)"
    by (simp add: authenticate_against_server_def auth_request_def u3 third_accepts_def
        sum_bind_def ex)
  have pre: "\<forall>t \<in> set [?one, ?two]. \<forall>i.
      snd (authenticate_against_server third_accepts (ms_url t) u p) \<noteq> Inr (True, i)"
    by (simp add: jellyfin_row_def c1 c2)
  have hit: "snd (authenticate_against_server third_accepts (ms_url ?three) u p)
     = Inr (True, Some dave_info)"
    by (simp add: jellyfin_row_def c3)
  have run: "authenticate_jellyfin_user third_accepts d u p
      = authenticate_loop third_accepts u p ([?one, ?two] @ ?three # [])"
    unfolding authenticate_jellyfin_user_def servers by (simp add: Let_def)
  have name: "ms_name ?three = ''Three''"
    by (simp add: jellyfin_row_def)
  have "snd (authenticate_loop third_accepts u p ([?one, ?two] @ ?three # []))
          = (True, Some (ms_name ?three), Some dave_info)"
    by (rule loop_first_success [OF pre hit, THEN conjunct1])
  then show ?thesis
    unfolding run name .
qed

text \<open>
  C4. A delegated login whose credential scan succeeds, for a username that no account in
  the table or pending in the session has, creates one account: role guest, linked to the
  authenticating server and its user id, with the hash of the random token as password
  (the submitted password is not stored); the table gains this account and no other of
  that username. A later delegated login of the same username, whatever password the
  servers accept and whatever token is drawn, returns the same account and leaves the
  database as it is.
\<close>

theorem delegated_login_provisions_once:
  assumes auth1: "snd (authenticate_jellyfin_user http d username password)
                    = (True, Some server_name, Some user_info)"
    and fresh: "\<forall>a \<in> set (admin_accounts d @ new_accounts d). acc_username a \<noteq> username"
    and login1: "snd (delegated_login http hash_password tok d username password) = (r1, d1)"
    and auth2: "snd (authenticate_jellyfin_user http2 d1 username password2)
                    = (True, Some server_name2, Some user_info2)"
    and login2: "snd (delegated_login http2 hash_password2 tok2 d1 username password2) = (r2, d2)"
  shows "r1 = Some \<lparr>acc_username = username, password_hash = hash_password tok, role = ''guest'',
                    jellyfin_server = Some server_name,
                    jellyfin_user_id = dict_get user_info ''id''\<rparr>
         \<and> admin_accounts d1 = admin_accounts d @ new_accounts d @ [the r1]
         \<and> length (filter (\<lambda>a. acc_username a = username) (admin_accounts d1)) = 1
         \<and> r2 = r1 \<and> d2 = d1
         \<and> length (filter (\<lambda>a. acc_username a = username) (admin_accounts d2)) = 1"
proof -
  let ?account = "\<lparr>acc_username = username, password_hash = hash_password tok, role = ''guest'',
                    jellyfin_server = Some server_name,
                    jellyfin_user_id = dict_get user_info ''id''\<rparr>"
  from fresh have none: "find (\<lambda>a. acc_username a = username) (admin_accounts d) = None"
    by (intro find_no_match) auto
  have first: "r1 = Some ?account"
    "d1 = commit (d\<lparr>new_accounts := new_accounts d @ [?account]\<rparr>)"
    using login1 delegated_login_success [OF auth1, of hash_password tok] none
    by (simp_all add: provision_guest_account_def create_guest_account_from_jellyfin_def Let_def)
  have table: "admin_accounts d1 = (admin_accounts d @ new_accounts d) @ ?account # []"
    by (simp add: first commit_def)
  from fresh have old: "\<forall>a \<in> set (admin_accounts d @ new_accounts d). \<not> acc_username a = username"
    by simp
  have found: "find (\<lambda>a. acc_username a = username) (admin_accounts d1) = Some ?account"
    unfolding table by (rule find_first_match [OF old]) simp
  have count: "length (filter (\<lambda>a. acc_username a = username) (admin_accounts d1)) = 1"
    using old by (simp add: table)
  have second: "r2 = Some ?account" "d2 = d1"
    using login2 delegated_login_success [OF auth2, of hash_password2 tok2] found
    by (simp_all add: provision_guest_account_def)
  from first(1) table count second show ?thesis by simp
qed

theorem delegated_login_provisions_once_witness:
  "snd (authenticate_jellyfin_user third_accepts three_server_db ''dave'' ''pw'')
     = (True, Some ''Three'', Some dave_info)
   \<and> admin_accounts three_server_db @ new_accounts three_server_db = []
   \<and> snd (delegated_login third_accepts toy_hash ''r4nd0m'' three_server_db ''dave'' ''pw'')
     = (Some dave_account, dave_db)
   \<and> snd (authenticate_jellyfin_user third_accepts dave_db ''dave'' ''other'')
     = (True, Some ''Three'', Some dave_info)
   \<and> snd (delegated_login third_accepts toy_hash ''again'' dave_db ''dave'' ''other'')
     = (Some dave_account, dave_db)
   \<and> admin_accounts dave_db = [dave_account]
   \<and> length (filter (\<lambda>a. acc_username a = ''dave'') (admin_accounts dave_db)) = 1"
proof -
  have auth1: "snd (authenticate_jellyfin_user third_accepts three_server_db ''dave'' ''pw'')
     = (True, Some ''Three'', Some dave_info)"
    by (rule third_accepts_scan) simp
  have empty: "admin_accounts three_server_db @ new_accounts three_server_db = []"
    by (simp add: three_server_db_def empty_db_def)
  have fresh: "\<forall>a \<in> set (admin_accounts three_server_db @ new_accounts three_server_db).
         acc_username a \<noteq> ''dave''"
    unfolding empty by simp
  have login1: "snd (delegated_login third_accepts toy_hash ''r4nd0m'' three_server_db ''dave'' ''pw'')
     = (Some dave_account, dave_db)"
    unfolding delegated_login_success [OF auth1]
    by (simp add: provision_guest_account_def create_guest_account_from_jellyfin_def Let_def
        commit_def three_server_db_def empty_db_def dave_db_def dave_account_def dict_get_def
        dave_info_def)
  have auth2: "snd (authenticate_jellyfin_user third_accepts dave_db ''dave'' ''other'')
     = (True, Some ''Three'', Some dave_info)"
    by (rule third_accepts_scan) (simp add: dave_db_def)
  obtain r2 d2 where
    l2: "snd (delegated_login third_accepts toy_hash ''again'' dave_db ''dave'' ''other'') = (r2, d2)"
    by (cases "snd (delegated_login third_accepts toy_hash ''again'' dave_db ''dave'' ''other'')")
  note res = delegated_login_provisions_once [OF auth1 fresh login1 auth2 l2]
  have again: "snd (delegated_login third_accepts toy_hash ''again'' dave_db ''dave'' ''other'')
     = (Some dave_account, dave_db)"
    using res l2 by simp
  have tab: "admin_accounts dave_db = [dave_account]"
    by (simp add: dave_db_def)
  have cnt: "length (filter (\<lambda>a. acc_username a = ''dave'') (admin_accounts dave_db)) = 1"
    by (rule res [THEN conjunct2, THEN conjunct2, THEN conjunct1])
  show ?thesis by (intro conjI auth1 empty login1 auth2 again tab cnt)
qed

lemma loop_success_origin:
  "snd (authenticate_loop http u p servers) = (True, n, info) \<Longrightarrow>
     \<exists>server \<in> set servers. n = Some (ms_name server)
        \<and> snd (authenticate_against_server http (ms_url server) u p) = Inr (True, info)"
proof (induction servers)
  case Nil
  then show ?case by simp
next
  case (Cons a servers)
  show ?case
  proof (cases "snd (authenticate_against_server http (ms_url a) u p)")
    case (Inl e)
    with Cons.prems have "snd (authenticate_loop http u p servers) = (True, n, info)"
      by (simp add: loop_step Let_def del: authenticate_loop.simps)
    from Cons.IH [OF this] show ?thesis by auto
  next
    case (Inr r)
    obtain ok i where r: "r = (ok, i)" by (cases r)
    show ?thesis
    proof (cases ok)
      case True
      with Cons.prems Inr r show ?thesis
        by (simp add: loop_step Let_def del: authenticate_loop.simps)
    next
      case False
      with Cons.prems Inr r have "snd (authenticate_loop http u p servers) = (True, n, info)"
        by (simp add: loop_step Let_def del: authenticate_loop.simps)
      from Cons.IH [OF this] show ?thesis by auto
    qed
  qed
qed

lemma scan_success_origin:
  assumes "snd (authenticate_jellyfin_user http d u p) = (True, n, info)"
  shows "\<exists>server. server \<in> set (media_servers d) \<and> ms_server_type server = ''jellyfin''
           \<and> n = Some (ms_name server)
           \<and> snd (authenticate_against_server http (ms_url server) u p) = Inr (True, info)"
proof -
  let ?js = "filter (\<lambda>s. ms_server_type s = ''jellyfin'') (media_servers d)"
  from assms have "snd (authenticate_loop http u p ?js) = (True, n, info)"
    by (simp add: authenticate_jellyfin_user_def Let_def split: if_splits)
  from loop_success_origin [OF this] show ?thesis by auto
qed

lemma server_success_origin:
  assumes "snd (authenticate_against_server http server_url u p) = Inr (True, info)"
  shows "\<exists>response user_data user_info.
           http (auth_request server_url u p) = Inr response \<and> status_code response = 200
           \<and> json_result response = Inr user_data
           \<and> extract_user_info user_data = Inr user_info \<and> info = Some user_info"
  using assms
  by (auto simp: authenticate_against_server_def Let_def sum_bind_def
           split: sum.splits if_splits)

lemma extract_user_info_id:
  assumes "extract_user_info user_data = Inr user_info"
  shows "sum_bind (py_get user_data ''User'' (JObj [])) (\<lambda>u. py_get u ''Id'' JNull)
           = Inr (dict_get user_info ''id'')"
  using assms
  by (auto simp: extract_user_info_def sum_bind_def dict_get_def split: sum.splits)

lemma created_linkage:
  "jellyfin_server (fst (snd (create_guest_account_from_jellyfin hash_password tok d username
                                 server_name user_info))) = Some server_name
   \<and> jellyfin_user_id (fst (snd (create_guest_account_from_jellyfin hash_password tok d username
                                    server_name user_info))) = dict_get user_info ''id''"
  by (simp add: create_guest_account_from_jellyfin_def Let_def)

text \<open>
  C9, as the code has it. Take the account that \<open>create_guest_account_from_jellyfin\<close>
  builds from the server name and user info of a successful scan. Its server name is set,
  to the name of a configured Jellyfin server that answered the credential check with
  200, and its user id is what \<open>User.Id\<close> of that answer reads as: the id when the
  answer carried one, \<open>None\<close> when it carried no user object or no id, and then the
  account has a server name without a user id.
\<close>

theorem delegated_account_linkage:
  assumes "snd (authenticate_jellyfin_user http d username password)
             = (True, Some server_name, Some user_info)"
  shows "\<exists>server response user_data.
           server \<in> set (media_servers d) \<and> ms_server_type server = ''jellyfin''
           \<and> ms_name server = server_name
           \<and> http (auth_request (ms_url server) username password) = Inr response
           \<and> status_code response = 200 \<and> json_result response = Inr user_data
           \<and> jellyfin_server (fst (snd (create_guest_account_from_jellyfin hash_password tok d
                                          username server_name user_info))) = Some server_name
           \<and> sum_bind (py_get user_data ''User'' (JObj [])) (\<lambda>u. py_get u ''Id'' JNull)
               = Inr (jellyfin_user_id (fst (snd (create_guest_account_from_jellyfin hash_password
                                                    tok d username server_name user_info))))
           \<and> (\<forall>top usr v. user_data = JObj top \<and> map_of top ''User'' = Some (JObj usr)
                 \<and> map_of usr ''Id'' = Some v \<longrightarrow>
                 jellyfin_user_id (fst (snd (create_guest_account_from_jellyfin hash_password
                                               tok d username server_name user_info))) = v)
           \<and> (\<forall>top usr. user_data = JObj top
                 \<and> (map_of top ''User'' = None
                     \<or> map_of top ''User'' = Some (JObj usr) \<and> map_of usr ''Id'' = None) \<longrightarrow>
                 jellyfin_user_id (fst (snd (create_guest_account_from_jellyfin hash_password
                                               tok d username server_name user_info))) = JNull)"
proof -
  let ?account = "fst (snd (create_guest_account_from_jellyfin hash_password tok d username
                              server_name user_info))"
  from scan_success_origin [OF assms] obtain server where
    server: "server \<in> set (media_servers d)" "ms_server_type server = ''jellyfin''"
      "ms_name server = server_name"
    and ok: "snd (authenticate_against_server http (ms_url server) username password)
               = Inr (True, Some user_info)"
    by auto
  from server_success_origin [OF ok] obtain response user_data where
    resp: "http (auth_request (ms_url server) username password) = Inr response"
      "status_code response = 200" "json_result response = Inr user_data"
    and ex: "extract_user_info user_data = Inr user_info"
    by auto
  have name: "jellyfin_server ?account = Some server_name"
    by (rule created_linkage [THEN conjunct1])
  have uid: "jellyfin_user_id ?account = dict_get user_info ''id''"
    by (rule created_linkage [THEN conjunct2])
  have read: "sum_bind (py_get user_data ''User'' (JObj [])) (\<lambda>u. py_get u ''Id'' JNull)
                = Inr (jellyfin_user_id ?account)"
    unfolding uid by (rule extract_user_info_id [OF ex])
  have present: "jellyfin_user_id ?account = v"
    if "user_data = JObj top \<and> map_of top ''User'' = Some (JObj usr) \<and> map_of usr ''Id'' = Some v"
    for top usr v
    using read that by (simp add: sum_bind_def dict_get_default_def)
  have absent: "jellyfin_user_id ?account = JNull"
    if "user_data = JObj top
        \<and> (map_of top ''User'' = None
            \<or> map_of top ''User'' = Some (JObj usr) \<and> map_of usr ''Id'' = None)"
    for top usr
    using read that by (auto simp: sum_bind_def dict_get_default_def)
  from server resp name read present absent show ?thesis by blast
qed

theorem delegated_account_linkage_witness:
  "snd (authenticate_jellyfin_user third_accepts three_server_db ''dave'' ''pw'')
     = (True, Some ''Three'', Some dave_info)
   \<and> jellyfin_server (fst (snd (create_guest_account_from_jellyfin toy_hash ''r4nd0m''
                                   three_server_db ''dave'' ''Three'' dave_info))) = Some ''Three''
   \<and> jellyfin_user_id (fst (snd (create_guest_account_from_jellyfin toy_hash ''r4nd0m''
                                   three_server_db ''dave'' ''Three'' dave_info))) = JStr ''u-7''"
proof -
  let ?account = "fst (snd (create_guest_account_from_jellyfin toy_hash ''r4nd0m''
                              three_server_db ''dave'' ''Three'' dave_info))"
  have auth: "snd (authenticate_jellyfin_user third_accepts three_server_db ''dave'' ''pw'')
     = (True, Some ''Three'', Some dave_info)"
    by (rule third_accepts_scan) simp
  note linked = delegated_account_linkage [OF auth, of toy_hash "''r4nd0m''"]
  from linked have name: "jellyfin_server ?account = Some ''Three''"
    by (elim exE conjE)
  from linked obtain server response user_data where
    resp: "third_accepts (auth_request (ms_url (server :: media_server)) ''dave'' ''pw'')
             = Inr response"
      "json_result response = Inr user_data"
    and read: "sum_bind (py_get user_data ''User'' (JObj [])) (\<lambda>u. py_get u ''Id'' JNull)
                 = Inr (jellyfin_user_id ?account)"
    by (elim exE conjE) (rule that)
  from resp have "user_data = dave_data"
    by (auto simp: third_accepts_def split: if_splits)
  with read have uid: "jellyfin_user_id ?account = JStr ''u-7''"
    by (simp add: dave_data_def sum_bind_def dict_get_default_def)
  show ?thesis by (intro conjI auth name uid)
qed

text \<open>A server that answers 200 with an empty object is accepted, its user info has no
  id, and the account created from it has a server name and no user id.\<close>

theorem delegated_account_without_user_id:
  "snd (authenticate_against_server bare_accept ''http://one'' ''dave'' ''pw'')
     = Inr (True, Some bare_info)
   \<and> jellyfin_server (fst (snd (create_guest_account_from_jellyfin toy_hash ''r4nd0m'' empty_db
                                   ''dave'' ''One'' bare_info))) = Some ''One''
   \<and> jellyfin_user_id (fst (snd (create_guest_account_from_jellyfin toy_hash ''r4nd0m'' empty_db
                                   ''dave'' ''One'' bare_info))) = JNull"
proof -
  have ex: "extract_user_info (JObj []) = Inr bare_info"
    by (simp add: extract_user_info_def bare_info_def sum_bind_def dict_get_default_def)
  have a: "snd (authenticate_against_server bare_accept ''http://one'' ''dave'' ''pw'')
     = Inr (True, Some bare_info)"
    by (simp add: authenticate_against_server_def bare_accept_def sum_bind_def ex)
  have b: "jellyfin_server (fst (snd (create_guest_account_from_jellyfin toy_hash ''r4nd0m'' empty_db
                                   ''dave'' ''One'' bare_info))) = Some ''One''"
    by (simp add: create_guest_account_from_jellyfin_def Let_def)
  have c: "jellyfin_user_id (fst (snd (create_guest_account_from_jellyfin toy_hash ''r4nd0m'' empty_db
                                   ''dave'' ''One'' bare_info))) = JNull"
    by (simp add: create_guest_account_from_jellyfin_def Let_def dict_get_def bare_info_def)
  show ?thesis by (intro conjI a b c)
qed

section \<open>What identity linking leaves in the database\<close>

text \<open>
  C7, as the code has it. The method never commits. It builds the new record itself, with
  the candidate's fields changed at most in \<open>identity_id\<close>, and adds it to the session
  as a pending object; the committed tables and the pending accounts are those the expiry
  cleanup left, which runs only for a candidate with a non-empty email, and are untouched
  otherwise.
\<close>

theorem linking_stages_record_uncommitted:
  "(\<not> truthy_str (user_email user_kwargs) \<longrightarrow>
      persistent_storage (snd (create_user_with_identity_linking cleanup email_re d user_kwargs))
        = persistent_storage d
      \<and> new_users (snd (create_user_with_identity_linking cleanup email_re d user_kwargs))
        = new_users d @ [fst (create_user_with_identity_linking cleanup email_re d user_kwargs)]
      \<and> new_accounts (snd (create_user_with_identity_linking cleanup email_re d user_kwargs))
        = new_accounts d)
   \<and> (user_email user_kwargs = Some e \<and> e \<noteq> [] \<longrightarrow>
      persistent_storage (snd (create_user_with_identity_linking cleanup email_re d user_kwargs))
        = persistent_storage (cleanup e d)
      \<and> new_users (snd (create_user_with_identity_linking cleanup email_re d user_kwargs))
        = new_users (cleanup e d)
            @ [fst (create_user_with_identity_linking cleanup email_re d user_kwargs)]
      \<and> new_accounts (snd (create_user_with_identity_linking cleanup email_re d user_kwargs))
        = new_accounts (cleanup e d))
   \<and> (fst (create_user_with_identity_linking cleanup email_re d user_kwargs))
        \<lparr>identity_id := identity_id user_kwargs\<rparr> = user_kwargs"
proof -
  have same: "(link_identity email_re d user_kwargs)\<lparr>identity_id := identity_id user_kwargs\<rparr>
                = user_kwargs"
    by (simp add: link_identity_def split: option.splits)
  show ?thesis
    by (simp add: create_user_with_identity_linking_def Let_def persistent_storage_def same)
qed

theorem linking_stages_record_uncommitted_witness:
  "\<not> truthy_str (user_email (candidate ''ABC123'' []))
   \<and> persistent_storage (snd (create_user_with_identity_linking no_cleanup contains_at invite_db
                                (candidate ''ABC123'' [])))
       = persistent_storage invite_db
   \<and> user_email (candidate ''ABC123'' ''b@y.org'') = Some ''b@y.org''
   \<and> persistent_storage (snd (create_user_with_identity_linking no_cleanup contains_at invite_db
                                (candidate ''ABC123'' ''b@y.org'')))
       = persistent_storage invite_db"
proof -
  have h1: "\<not> truthy_str (user_email (candidate ''ABC123'' []))"
    by (simp add: candidate_def)
  have h2: "user_email (candidate ''ABC123'' ''b@y.org'') = Some ''b@y.org'' \<and> ''b@y.org'' \<noteq> []"
    by (simp add: candidate_def)
  have r1: "persistent_storage (snd (create_user_with_identity_linking no_cleanup contains_at
                invite_db (candidate ''ABC123'' []))) = persistent_storage invite_db"
    by (rule linking_stages_record_uncommitted
          [THEN conjunct1, THEN mp, OF h1, THEN conjunct1])
  have r2: "persistent_storage (snd (create_user_with_identity_linking no_cleanup contains_at
                invite_db (candidate ''ABC123'' ''b@y.org''))) = persistent_storage invite_db"
    using linking_stages_record_uncommitted
          [where cleanup = no_cleanup and email_re = contains_at and d = invite_db
             and user_kwargs = "candidate ''ABC123'' ''b@y.org''" and e = "''b@y.org''",
           THEN conjunct2, THEN conjunct1, THEN mp, OF h2, THEN conjunct1]
    by (simp add: no_cleanup_def)
  show ?thesis by (intro conjI h1 r1 h2 [THEN conjunct1] r2)
qed

text \<open>On a session with nothing pending, the call leaves the new record pending in the
  session: the record is created by the method, not by its caller.\<close>

theorem linking_creates_the_record:
  "new_users invite_db = []
   \<and> new_users (snd (create_user_with_identity_linking no_cleanup contains_at invite_db
                       (candidate ''ABC123'' ''b@y.org'')))
       = [(candidate ''ABC123'' ''b@y.org'')\<lparr>identity_id := Some 5\<rparr>]"
proof -
  have a: "new_users invite_db = []"
    by (simp add: invite_db_def empty_db_def)
  have l: "link_identity contains_at invite_db (candidate ''ABC123'' ''b@y.org'')
             = (candidate ''ABC123'' ''b@y.org'')\<lparr>identity_id := Some 5\<rparr>"
    by (simp add: link_identity_def user_query_def candidate_def invite_db_def empty_db_def
        alice_row_def carol_row_def)
  have b: "new_users (snd (create_user_with_identity_linking no_cleanup contains_at invite_db
                       (candidate ''ABC123'' ''b@y.org'')))
       = [(candidate ''ABC123'' ''b@y.org'')\<lparr>identity_id := Some 5\<rparr>]"
    by (simp add: create_user_with_identity_linking_def Let_def l no_cleanup_def a)
  show ?thesis by (intro conjI a b)
qed

section \<open>Read-only statistics\<close>

text \<open>
  C6, as the code has it. \<open>get_readonly_statistics\<close> composes \<open>get_user_count\<close> and
  \<open>get_server_info\<close>. For a client class that overrides both, its result does not
  depend on \<open>statistics\<close> at all, and the storage is unchanged when the two overrides
  leave it unchanged. For a class that inherits both base methods, the storage ends as
  after two calls of \<open>statistics\<close>.
\<close>

theorem readonly_statistics_and_overrides:
  "(get_user_count_override self = Some count \<and> get_server_info_override self = Some info \<longrightarrow>
      get_readonly_statistics (self\<lparr>statistics := other\<rparr>) s = get_readonly_statistics self s
      \<and> ((\<forall>x. snd (count x) = x) \<and> (\<forall>x. snd (info x) = x) \<longrightarrow>
           snd (get_readonly_statistics self s) = s))
   \<and> (get_user_count_override self = None \<and> get_server_info_override self = None \<longrightarrow>
      snd (get_readonly_statistics self s) = snd (statistics self (snd (statistics self s))))"
proof -
  have over: "get_readonly_statistics (self\<lparr>statistics := other\<rparr>) s
                = get_readonly_statistics self s"
    if "get_user_count_override self = Some count" "get_server_info_override self = Some info"
  proof -
    have cu: "call_get_user_count (self\<lparr>statistics := other\<rparr>) = call_get_user_count self"
      using that(1) by (intro ext) (simp add: call_get_user_count_def)
    have ci: "call_get_server_info (self\<lparr>statistics := other\<rparr>) = call_get_server_info self"
      using that(2) by (intro ext) (simp add: call_get_server_info_def)
    show ?thesis
      unfolding get_readonly_statistics_def cu ci by (rule refl)
  qed
  have pure: "snd (get_readonly_statistics self s) = s"
    if "get_user_count_override self = Some count" "get_server_info_override self = Some info"
      "\<forall>x. snd (count x) = x" "\<forall>x. snd (info x) = x"
  proof -
    obtain r1 s1 where c: "count s = (r1, s1)" by (cases "count s")
    with that(3) have s1: "s1 = s" by (metis snd_conv)
    obtain r2 s2 where i: "info s = (r2, s2)" by (cases "info s")
    with that(4) have s2: "s2 = s" by (metis snd_conv)
    show ?thesis
      using that(1,2) c i s1 s2
      by (simp add: get_readonly_statistics_def call_get_user_count_def call_get_server_info_def
          split: sum.splits)
  qed
  have dflt: "snd (get_readonly_statistics self s) = snd (statistics self (snd (statistics self s)))"
    if "get_user_count_override self = None" "get_server_info_override self = None"
  proof -
    have a: "snd (get_user_count self x) = snd (statistics self x)" for x
      by (simp add: get_user_count_def split: prod.splits sum.splits)
    have b: "snd (get_server_info self x) = snd (statistics self x)" for x
      by (simp add: get_server_info_def split: prod.splits sum.splits)
    obtain n s1 where c: "get_user_count self s = (n, s1)" by (cases "get_user_count self s")
    obtain i s2 where d: "get_server_info self s1 = (i, s2)" by (cases "get_server_info self s1")
    from a [of s] c have s1: "s1 = snd (statistics self s)" by simp
    from b [of s1] d have s2: "s2 = snd (statistics self s1)" by simp
    show ?thesis
      using that c d s1 s2
      by (simp add: get_readonly_statistics_def call_get_user_count_def call_get_server_info_def)
  qed
  from over pure dflt show ?thesis by blast
qed

theorem readonly_statistics_and_overrides_witness:
  "get_user_count_override overriding_client = Some fixed_count
   \<and> get_server_info_override overriding_client = Some fixed_info
   \<and> get_readonly_statistics (overriding_client\<lparr>statistics := statistics syncing_client\<rparr>) 0
       = get_readonly_statistics overriding_client 0
   \<and> snd (get_readonly_statistics overriding_client 0) = 0
   \<and> get_user_count_override syncing_client = None
   \<and> get_server_info_override syncing_client = None
   \<and> snd (get_readonly_statistics syncing_client 0)
       = snd (statistics syncing_client (snd (statistics syncing_client 0)))"
proof -
  have o1: "get_user_count_override overriding_client = Some fixed_count"
    and o2: "get_server_info_override overriding_client = Some fixed_info"
    by (simp_all add: overriding_client_def)
  have p: "(\<forall>x. snd (fixed_count x) = x) \<and> (\<forall>x. snd (fixed_info x) = x)"
    by (simp add: fixed_count_def fixed_info_def)
  have n1: "get_user_count_override syncing_client = None"
    and n2: "get_server_info_override syncing_client = None"
    by (simp_all add: syncing_client_def)
  note over = readonly_statistics_and_overrides
      [where self = overriding_client and count = fixed_count and info = fixed_info
         and other = "statistics syncing_client" and s = 0,
       THEN conjunct1, THEN mp, OF conjI [OF o1 o2]]
  note dflt = readonly_statistics_and_overrides
      [where self = syncing_client and s = 0,
       THEN conjunct2, THEN mp, OF conjI [OF n1 n2]]
  show ?thesis
    by (intro conjI o1 o2 over [THEN conjunct1] over [THEN conjunct2, THEN mp, OF p] n1 n2 dflt)
qed

text \<open>A class that inherits the base methods and whose \<open>statistics\<close> writes: the call
  writes twice.\<close>

theorem readonly_statistics_runs_statistics:
  "snd (get_readonly_statistics syncing_client 0) = 2"
  by (simp add: get_readonly_statistics_def call_get_user_count_def call_get_server_info_def
      get_user_count_def get_server_info_def syncing_client_def sum_bind_def
      dict_get_default_def)

section \<open>Configuration resolution at construction\<close>

text \<open>
  C8. An explicit row is adopted whatever the database holds; without one, and with a
  non-empty tag on the class, the first \<open>MediaServer\<close> row of that type is adopted;
  without an explicit row and with no tag or no row of that type, \<open>url\<close> and \<open>token\<close>
  are read from the settings keys and \<open>server_row\<close> and \<open>server_id\<close> stay unassigned.
\<close>

theorem MediaClient_init_resolution_order:
  "(media_server = Some row \<longrightarrow>
      MediaClient_init d class_server_type media_server url_key token_key
        = \<lparr>server_row = Some row, server_id = Some (ms_id row),
           url = Some (ms_url row), token = Some (ms_api_key row)\<rparr>)
   \<and> (media_server = None \<and> class_server_type = Some t \<and> t \<noteq> []
        \<and> media_servers d = pre @ first # post
        \<and> (\<forall>r \<in> set pre. ms_server_type r \<noteq> t) \<and> ms_server_type first = t \<longrightarrow>
      MediaClient_init d class_server_type media_server url_key token_key
        = \<lparr>server_row = Some first, server_id = Some (ms_id first),
           url = Some (ms_url first), token = Some (ms_api_key first)\<rparr>)
   \<and> (media_server = None
        \<and> (\<not> truthy_str class_server_type
            \<or> (\<forall>r \<in> set (media_servers d). Some (ms_server_type r) \<noteq> class_server_type)) \<longrightarrow>
      MediaClient_init d class_server_type media_server url_key token_key
        = \<lparr>server_row = None, server_id = None,
           url = settings d url_key, token = settings d token_key\<rparr>)"
proof -
  have look: "find (\<lambda>r. Some (ms_server_type r) = Some t) (pre @ first # post) = Some first"
    if "\<forall>r \<in> set pre. ms_server_type r \<noteq> t" "ms_server_type first = t"
    using that by (intro find_first_match) auto
  have miss: "find (\<lambda>r. Some (ms_server_type r) = class_server_type) (media_servers d) = None"
    if "\<forall>r \<in> set (media_servers d). Some (ms_server_type r) \<noteq> class_server_type"
    using that by (intro find_no_match) auto
  show ?thesis
    using look miss
    by (auto simp: MediaClient_init_def attach_server_row_def)
qed

theorem MediaClient_init_resolution_order_witness:
  "MediaClient_init legacy_db (Some ''jellyfin'') (Some (jellyfin_row 9 ''Nine'' ''http://nine''))
       ''server_url'' ''api_key''
     = \<lparr>server_row = Some (jellyfin_row 9 ''Nine'' ''http://nine''), server_id = Some 9,
        url = Some ''http://nine'', token = Some ''key''\<rparr>
   \<and> media_servers legacy_db = [] @ jellyfin_row 1 ''One'' ''http://one'' # []
   \<and> MediaClient_init legacy_db (Some ''jellyfin'') None ''server_url'' ''api_key''
     = \<lparr>server_row = Some (jellyfin_row 1 ''One'' ''http://one''), server_id = Some 1,
        url = Some ''http://one'', token = Some ''key''\<rparr>
   \<and> MediaClient_init legacy_db (Some ''plex'') None ''server_url'' ''api_key''
     = \<lparr>server_row = None, server_id = None,
        url = Some ''http://legacy'', token = Some ''legacy-key''\<rparr>
   \<and> MediaClient_init legacy_db None None ''server_url'' ''api_key''
     = \<lparr>server_row = None, server_id = None,
        url = Some ''http://legacy'', token = Some ''legacy-key''\<rparr>"
proof -
  let ?one = "jellyfin_row 1 ''One'' ''http://one''"
  let ?nine = "jellyfin_row 9 ''Nine'' ''http://nine''"
  have servers: "media_servers legacy_db = [] @ ?one # []"
    by (simp add: legacy_db_def empty_db_def)
  have su: "settings legacy_db ''server_url'' = Some ''http://legacy''"
    and st: "settings legacy_db ''api_key'' = Some ''legacy-key''"
    by (simp_all add: legacy_db_def empty_db_def)
  have r1: "MediaClient_init legacy_db (Some ''jellyfin'') (Some ?nine) ''server_url'' ''api_key''
     = \<lparr>server_row = Some ?nine, server_id = Some 9,
        url = Some ''http://nine'', token = Some ''key''\<rparr>"
    using MediaClient_init_resolution_order
      [where media_server = "Some ?nine" and row = ?nine and d = legacy_db
         and class_server_type = "Some ''jellyfin''" and url_key = "''server_url''"
         and token_key = "''api_key''", THEN conjunct1, THEN mp, OF refl]
    by (simp add: jellyfin_row_def)
  have h2: "(None :: media_server option) = None \<and> Some ''jellyfin'' = Some ''jellyfin''
      \<and> ''jellyfin'' \<noteq> [] \<and> media_servers legacy_db = [] @ ?one # []
      \<and> (\<forall>r \<in> set []. ms_server_type r \<noteq> ''jellyfin'') \<and> ms_server_type ?one = ''jellyfin''"
    using servers by (simp add: jellyfin_row_def)
  have r2: "MediaClient_init legacy_db (Some ''jellyfin'') None ''server_url'' ''api_key''
     = \<lparr>server_row = Some ?one, server_id = Some 1,
        url = Some ''http://one'', token = Some ''key''\<rparr>"
    using MediaClient_init_resolution_order
      [where media_server = None and d = legacy_db and t = "''jellyfin''" and pre = "[]"
         and first = ?one and post = "[]"
         and class_server_type = "Some ''jellyfin''" and url_key = "''server_url''"
         and token_key = "''api_key''", THEN conjunct2, THEN conjunct1, THEN mp, OF h2]
    by (simp add: jellyfin_row_def)
  have h3: "(None :: media_server option) = None
      \<and> (\<not> truthy_str (Some ''plex'')
          \<or> (\<forall>r \<in> set (media_servers legacy_db). Some (ms_server_type r) \<noteq> Some ''plex''))"
    by (simp add: legacy_db_def empty_db_def jellyfin_row_def)
  have r3: "MediaClient_init legacy_db (Some ''plex'') None ''server_url'' ''api_key''
     = \<lparr>server_row = None, server_id = None,
        url = Some ''http://legacy'', token = Some ''legacy-key''\<rparr>"
    using MediaClient_init_resolution_order
      [where media_server = None and d = legacy_db
         and class_server_type = "Some ''plex''" and url_key = "''server_url''"
         and token_key = "''api_key''", THEN conjunct2, THEN conjunct2, THEN mp, OF h3]
    by (simp add: su st)
  have h4: "(None :: media_server option) = None
      \<and> (\<not> truthy_str None
          \<or> (\<forall>r \<in> set (media_servers legacy_db). Some (ms_server_type r) \<noteq> None))"
    by simp
  have r4: "MediaClient_init legacy_db None None ''server_url'' ''api_key''
     = \<lparr>server_row = None, server_id = None,
        url = Some ''http://legacy'', token = Some ''legacy-key''\<rparr>"
    using MediaClient_init_resolution_order
      [where media_server = None and d = legacy_db
         and class_server_type = None and url_key = "''server_url''"
         and token_key = "''api_key''", THEN conjunct2, THEN conjunct2, THEN mp, OF h4]
    by (simp add: su st)
  show ?thesis by (intro conjI r1 servers r2 r3 r4)
qed

text \<open>
  C10. A client constructed without an explicit row, whose class has no tag or no
  \<open>MediaServer\<close> row of its type, has neither \<open>server_row\<close> nor \<open>server_id\<close>, and
  \<open>generate_image_proxy_url\<close> on it raises \<open>AttributeError\<close> for any image URL.
\<close>

theorem legacy_fallback_has_no_server_id:
  assumes "\<not> truthy_str class_server_type
           \<or> (\<forall>r \<in> set (media_servers d). Some (ms_server_type r) \<noteq> class_server_type)"
  shows "server_row (MediaClient_init d class_server_type None url_key token_key) = None
         \<and> server_id (MediaClient_init d class_server_type None url_key token_key) = None
         \<and> generate_image_proxy_url generate_token quote_plus
              (MediaClient_init d class_server_type None url_key token_key) image_url
             = Inl (AttributeError ''server_id'')"
proof -
  have "find (\<lambda>r. Some (ms_server_type r) = class_server_type) (media_servers d) = None"
    if "\<forall>r \<in> set (media_servers d). Some (ms_server_type r) \<noteq> class_server_type"
    using that by (intro find_no_match) auto
  with assms show ?thesis
    by (auto simp: MediaClient_init_def generate_image_proxy_url_def)
qed

theorem legacy_fallback_has_no_server_id_witness:
  "media_servers legacy_db = [jellyfin_row 1 ''One'' ''http://one'']
   \<and> ms_server_type (jellyfin_row 1 ''One'' ''http://one'') = ''jellyfin''
   \<and> server_id (MediaClient_init legacy_db (Some ''plex'') None ''server_url'' ''api_key'') = None
   \<and> generate_image_proxy_url plain_token no_quote
        (MediaClient_init legacy_db (Some ''plex'') None ''server_url'' ''api_key'')
        ''http://one/Items/1/Images/Primary''
       = Inl (AttributeError ''server_id'')"
proof -
  have servers: "media_servers legacy_db = [jellyfin_row 1 ''One'' ''http://one'']"
    by (simp add: legacy_db_def empty_db_def)
  have ty: "ms_server_type (jellyfin_row 1 ''One'' ''http://one'') = ''jellyfin''"
    by (simp add: jellyfin_row_def)
  have h: "\<not> truthy_str (Some ''plex'')
          \<or> (\<forall>r \<in> set (media_servers legacy_db). Some (ms_server_type r) \<noteq> Some ''plex'')"
    by (simp add: servers jellyfin_row_def)
  note res = legacy_fallback_has_no_server_id
      [OF h, of "''server_url''" "''api_key''" plain_token no_quote
         "''http://one/Items/1/Images/Primary''"]
  show ?thesis
    by (intro conjI servers ty res [THEN conjunct2, THEN conjunct1]
        res [THEN conjunct2, THEN conjunct2])
qed

end
